theory Spec2Isabelle
  imports Main
begin

section \<open>Compact encoding of signed offchain attestations (offchain-utils.ts)\<close>

text \<open>
  The module \<^verbatim>\<open>src/offchain/offchain-utils.ts\<close> maps a signed attestation package to a
  fixed-order 18-slot tuple (\<^verbatim>\<open>compactOffchainAttestationPackage\<close>), maps such a tuple back
  (\<^verbatim>\<open>uncompactOffchainAttestationPackage\<close>), and ships the tuple as JSON, deflated and
  base64-encoded (\<^verbatim>\<open>zipAndEncodeToBase64\<close>, \<^verbatim>\<open>decodeBase64ZippedBase64\<close>).
\<close>

subsection \<open>JavaScript values\<close>

text \<open>
  A JavaScript number is an IEEE double. The numbers this module produces and consumes are
  version tags, the recovery id, the reserved 0 and \<^verbatim>\<open>Number(bigint)\<close>, all integer-valued, so
  the model keeps the integer-valued doubles (\<open>Finite n\<close>, both zeros being \<open>Finite 0\<close>), NaN and
  the two infinities; fractional doubles are not represented.
\<close>

datatype jsnum = Finite int | NaN | PosInfinity | NegInfinity

text \<open>The primitive values a tuple slot or a package field can hold.\<close>

datatype jsval =
    Undefined
  | Null
  | Boolean bool
  | Number jsnum
  | BigInt int
  | String string

datatype error =
    TypeError
  | RangeError
  | SyntaxError
  | Error string

text \<open>Truthiness (the abstract operation ToBoolean).\<close>

fun truthy :: "jsval \<Rightarrow> bool" where
  "truthy Undefined = False"
| "truthy Null = False"
| "truthy (Boolean b) = b"
| "truthy (Number (Finite n)) = (n \<noteq> 0)"
| "truthy (Number NaN) = False"
| "truthy (Number PosInfinity) = True"
| "truthy (Number NegInfinity) = True"
| "truthy (BigInt n) = (n \<noteq> 0)"
| "truthy (String s) = (s \<noteq> [])"

text \<open>Strict equality \<^verbatim>\<open>===\<close> on primitives: same type and same value, NaN unequal to itself.\<close>

definition strict_eq :: "jsval \<Rightarrow> jsval \<Rightarrow> bool" where
  "strict_eq a b = (a = b \<and> a \<noteq> Number NaN)"

subsection \<open>Decimal text of integers\<close>

definition digit_char :: "nat \<Rightarrow> char" where
  "digit_char d = char_of (48 + d)"

fun show_nat :: "nat \<Rightarrow> string" where
  "show_nat n = (if n < 10 then [digit_char n] else show_nat (n div 10) @ [digit_char (n mod 10)])"

declare show_nat.simps [simp del]

text \<open>\<^verbatim>\<open>BigInt.prototype.toString()\<close>: a minus sign for a negative value, then the decimal digits.\<close>

definition show_int :: "int \<Rightarrow> string" where
  "show_int i = (if i < 0 then CHR ''-'' # show_nat (nat (- i)) else show_nat (nat i))"

subsection \<open>\<^verbatim>\<open>Number(bigint)\<close>\<close>

text \<open>
  \<^verbatim>\<open>Number(x)\<close> of a bigint is the double nearest to it, ties to the even significand, and an
  infinity from \<open>2^1024\<close> on. A magnitude below \<open>2^53\<close> is a double already.
\<close>

fun bitlen :: "nat \<Rightarrow> nat" where
  "bitlen n = (if n = 0 then 0 else Suc (bitlen (n div 2)))"

declare bitlen.simps [simp del]

definition round_to_double :: "nat \<Rightarrow> nat" where
  "round_to_double m =
     (if m < 2 ^ 53 then m
      else let e = bitlen m - 53;
               q = m div 2 ^ e;
               r = m mod 2 ^ e;
               h = 2 ^ (e - 1)
           in (if h < r \<or> (r = h \<and> odd q) then q + 1 else q) * 2 ^ e)"

definition Number_of_bigint :: "int \<Rightarrow> jsnum" where
  "Number_of_bigint n =
     (let m = round_to_double (nat \<bar>n\<bar>)
      in if 2 ^ 1024 \<le> m then (if n < 0 then NegInfinity else PosInfinity)
         else Finite (if n < 0 then - int m else int m))"

subsection \<open>The text of a number\<close>

text \<open>
  \<^verbatim>\<open>Number.prototype.toString\<close> on an integer-valued double \<open>m\<close>: the digits are those of the
  integer with the fewest significant digits that reads back as \<open>m\<close>, the closest to \<open>m\<close> when
  there are two (the even one on a tie); they are written in full up to 21 digits and in
  exponent notation beyond. Below \<open>2^53\<close> this is the decimal text of \<open>m\<close> itself.
\<close>

fun ndigits :: "nat \<Rightarrow> nat" where
  "ndigits n = (if n < 10 then 1 else Suc (ndigits (n div 10)))"

declare ndigits.simps [simp del]

text \<open>The integers with at most \<open>k\<close> significant digits next to \<open>m\<close> that read back as \<open>m\<close>.\<close>

definition candidates :: "nat \<Rightarrow> nat \<Rightarrow> nat list" where
  "candidates m k =
     (let p = 10 ^ (ndigits m - k); lo = (m div p) * p
      in filter (\<lambda>c. round_to_double c = m) [lo, lo + p])"

definition closest :: "nat \<Rightarrow> nat \<Rightarrow> nat list \<Rightarrow> nat" where
  "closest m p cs =
     (case cs of
        [] \<Rightarrow> m
      | [c] \<Rightarrow> c
      | lo # hi # _ \<Rightarrow>
          if m - lo < hi - m then lo
          else if hi - m < m - lo then hi
          else if even (lo div p) then lo else hi)"

definition shortest :: "nat \<Rightarrow> nat" where
  "shortest m =
     (case filter (\<lambda>k. candidates m k \<noteq> []) [1..<18] of
        [] \<Rightarrow> m
      | k # _ \<Rightarrow> closest m (10 ^ (ndigits m - k)) (candidates m k))"

definition strip_zeros :: "string \<Rightarrow> string" where
  "strip_zeros ds = rev (dropWhile (\<lambda>c. c = CHR ''0'') (rev ds))"

definition show_double :: "nat \<Rightarrow> string" where
  "show_double m =
     (if m < 2 ^ 53 then show_nat m
      else let c = shortest m; n = ndigits c
           in if n \<le> 21 then show_nat c
              else (case strip_zeros (show_nat c) of
                      [] \<Rightarrow> []
                    | d # ds \<Rightarrow>
                        d # (if ds = [] then [] else CHR ''.'' # ds) @ ''e+'' @ show_nat (n - 1)))"

definition number_to_string :: "int \<Rightarrow> string" where
  "number_to_string n =
     (if n < 0 then CHR ''-'' # show_double (nat (- n)) else show_double (nat n))"

text \<open>The string conversion of a template literal (ToString).\<close>

fun to_string :: "jsval \<Rightarrow> string" where
  "to_string Undefined = ''undefined''"
| "to_string Null = ''null''"
| "to_string (Boolean b) = (if b then ''true'' else ''false'')"
| "to_string (Number (Finite n)) = number_to_string n"
| "to_string (Number NaN) = ''NaN''"
| "to_string (Number PosInfinity) = ''Infinity''"
| "to_string (Number NegInfinity) = ''-Infinity''"
| "to_string (BigInt n) = show_int n"
| "to_string (String s) = s"

subsection \<open>\<^verbatim>\<open>BigInt(value)\<close>\<close>

text \<open>
  Strings are sequences of 8-bit code units; the white space a numeric string may carry around
  its digits is then TAB, LF, VT, FF, CR, SP and NBSP.
\<close>

definition is_ws :: "char \<Rightarrow> bool" where
  "is_ws c = (of_char c \<in> {9, 10, 11, 12, 13, 32, 160 :: nat})"

definition trim :: "string \<Rightarrow> string" where
  "trim s = rev (dropWhile is_ws (rev (dropWhile is_ws s)))"

definition digit_val :: "char \<Rightarrow> nat option" where
  "digit_val c =
     (let k = of_char c :: nat
      in if 48 \<le> k \<and> k \<le> 57 then Some (k - 48)
         else if 97 \<le> k \<and> k \<le> 102 then Some (k - 87)
         else if 65 \<le> k \<and> k \<le> 70 then Some (k - 55)
         else None)"

text \<open>The digits of \<open>s\<close> in base \<open>b\<close>, added to the accumulator; None at a character that is no digit of that base.\<close>

fun parse_digits :: "nat \<Rightarrow> nat \<Rightarrow> string \<Rightarrow> nat option" where
  "parse_digits b acc [] = Some acc"
| "parse_digits b acc (c # cs) =
     (case digit_val c of
        None \<Rightarrow> None
      | Some d \<Rightarrow> if d < b then parse_digits b (acc * b + d) cs else None)"

definition parse_nonempty :: "nat \<Rightarrow> string \<Rightarrow> nat option" where
  "parse_nonempty b s = (if s = [] then None else parse_digits b 0 s)"

text \<open>
  StringToBigInt: the trimmed text is empty (zero), a prefixed hexadecimal, octal or binary
  literal without sign, or decimal digits after an optional sign.
\<close>

fun StringToBigInt_trimmed :: "string \<Rightarrow> int option" where
  "StringToBigInt_trimmed [] = Some 0"
| "StringToBigInt_trimmed (c # d # cs) =
     (if c = CHR ''0'' \<and> (d = CHR ''x'' \<or> d = CHR ''X'') then map_option int (parse_nonempty 16 cs)
      else if c = CHR ''0'' \<and> (d = CHR ''o'' \<or> d = CHR ''O'') then map_option int (parse_nonempty 8 cs)
      else if c = CHR ''0'' \<and> (d = CHR ''b'' \<or> d = CHR ''B'') then map_option int (parse_nonempty 2 cs)
      else if c = CHR ''-'' then map_option (\<lambda>n. - int n) (parse_nonempty 10 (d # cs))
      else if c = CHR ''+'' then map_option int (parse_nonempty 10 (d # cs))
      else map_option int (parse_nonempty 10 (c # d # cs)))"
| "StringToBigInt_trimmed [c] = map_option int (parse_nonempty 10 [c])"

definition StringToBigInt :: "string \<Rightarrow> int option" where
  "StringToBigInt s = StringToBigInt_trimmed (trim s)"

text \<open>
  \<^verbatim>\<open>BigInt(v)\<close>: a bigint is returned as it is, an integer-valued number is converted, NaN and
  the infinities raise RangeError, a string is parsed (SyntaxError when it is no integer
  literal), a boolean is 0 or 1, undefined and null raise TypeError.
\<close>

fun js_BigInt :: "jsval \<Rightarrow> error + int" where
  "js_BigInt (BigInt n) = Inr n"
| "js_BigInt (Number (Finite n)) = Inr n"
| "js_BigInt (Number NaN) = Inl RangeError"
| "js_BigInt (Number PosInfinity) = Inl RangeError"
| "js_BigInt (Number NegInfinity) = Inl RangeError"
| "js_BigInt (String s) = (case StringToBigInt s of None \<Rightarrow> Inl SyntaxError | Some n \<Rightarrow> Inr n)"
| "js_BigInt (Boolean b) = Inr (if b then 1 else 0)"
| "js_BigInt Undefined = Inl TypeError"
| "js_BigInt Null = Inl TypeError"

subsection \<open>Constants of the libraries and of \<^verbatim>\<open>./offchain\<close>\<close>

text \<open>\<^verbatim>\<open>ZeroAddress\<close> and \<^verbatim>\<open>ZeroHash\<close> of ethers: \<^verbatim>\<open>0x\<close> and 40, respectively 64, zeros.\<close>

definition ZeroAddress :: string where
  "ZeroAddress = ''0x0000000000000000000000000000000000000000''"

definition ZeroHash :: string where
  "ZeroHash = ''0x0000000000000000000000000000000000000000000000000000000000000000''"

text \<open>
  Modelled from the spec: the enum \<^verbatim>\<open>OffchainAttestationVersion\<close> is declared in
  \<^verbatim>\<open>./offchain\<close>, which is not among the sources. The spec names its three tags Legacy, V1
  and V2, gives a V2 package \<^verbatim>\<open>version=2\<close>, and has a falsy slot 16 stand for Legacy: the
  numeric enum Legacy = 0, Version1 = 1, Version2 = 2.
\<close>

definition Legacy :: jsval where
  "Legacy = Number (Finite 0)"

text \<open>Modelled from the spec: the V1 tag of \<^verbatim>\<open>OffchainAttestationVersion\<close>, see above.\<close>

definition Version1 :: jsval where
  "Version1 = Number (Finite 1)"

text \<open>Modelled from the spec: the V2 tag of \<^verbatim>\<open>OffchainAttestationVersion\<close>, see above.\<close>

definition Version2 :: jsval where
  "Version2 = Number (Finite 2)"

subsection \<open>The package\<close>

text \<open>
  A field that holds \<open>Undefined\<close> stands for a property that is absent or holds
  \<^verbatim>\<open>undefined\<close>: the module only reads these properties, and a read does not tell the two
  apart. \<^verbatim>\<open>chainId\<close>, \<^verbatim>\<open>time\<close> and \<^verbatim>\<open>expirationTime\<close> are declared \<^verbatim>\<open>bigint\<close>.
\<close>

type_synonym TypedData = "string \<times> string"

type_synonym EIP712MessageTypes = "(string \<times> TypedData list) list"

record eip712_domain =
  dom_name :: string
  dom_version :: jsval
  dom_chainId :: int
  dom_verifyingContract :: jsval

record ecdsa_signature =
  sig_r :: jsval
  sig_s :: jsval
  sig_v :: jsval

record attestation_message =
  msg_version :: jsval
  msg_schema :: jsval
  msg_recipient :: jsval
  msg_time :: int
  msg_expirationTime :: int
  msg_revocable :: jsval
  msg_refUID :: jsval
  msg_data :: jsval
  msg_salt :: jsval

text \<open>
  The signature-bearing object is a \<^verbatim>\<open>SignedOffchainAttestation\<close> (with a nested
  \<^verbatim>\<open>signature\<close>) or a \<^verbatim>\<open>SignedOffchainAttestationV1\<close> (with \<^verbatim>\<open>r\<close>, \<^verbatim>\<open>s\<close>, \<^verbatim>\<open>v\<close> at the top
  level). The module tells them apart by the presence of keys, so the keys in which the two
  shapes differ are optional here: \<open>None\<close> is an absent key.
\<close>

record signed_attestation =
  att_version :: jsval
  att_domain :: eip712_domain
  att_primaryType :: string
  att_types :: EIP712MessageTypes
  att_signature :: "ecdsa_signature option"
  att_uid :: jsval
  att_message :: attestation_message
  att_r :: "jsval option"
  att_s :: "jsval option"
  att_v :: "jsval option"

record package =
  pkg_sig :: signed_attestation
  pkg_signer :: jsval

subsection \<open>The compact tuple\<close>

text \<open>A tuple is a JavaScript array; reading past its end gives \<^verbatim>\<open>undefined\<close>.\<close>

type_synonym tuple = "jsval list"

definition slot :: "tuple \<Rightarrow> nat \<Rightarrow> jsval" where
  "slot t i = (if i < length t then t ! i else Undefined)"

subsection \<open>The legacy adapter\<close>

definition isSignedOffchainAttestationV1 :: "signed_attestation \<Rightarrow> bool" where
  "isSignedOffchainAttestationV1 attestation =
     (att_v attestation \<noteq> None \<and> att_r attestation \<noteq> None \<and> att_s attestation \<noteq> None)"

text \<open>A destructured key that is absent reads as \<^verbatim>\<open>undefined\<close>.\<close>

definition key_value :: "jsval option \<Rightarrow> jsval" where
  "key_value k = (case k of None \<Rightarrow> Undefined | Some x \<Rightarrow> x)"

definition convertV1AttestationToV2 :: "signed_attestation \<Rightarrow> signed_attestation" where
  "convertV1AttestationToV2 attestation =
     attestation
       \<lparr> att_v := None, att_r := None, att_s := None,
         att_version := Version1,
         att_signature := Some \<lparr> sig_r = key_value (att_r attestation),
                                 sig_s = key_value (att_s attestation),
                                 sig_v = key_value (att_v attestation) \<rparr> \<rparr>"

subsection \<open>Compaction\<close>

text \<open>Reading \<^verbatim>\<open>sig.signature.r\<close> when \<^verbatim>\<open>sig.signature\<close> is absent raises TypeError.\<close>

definition compactOffchainAttestationPackage :: "package \<Rightarrow> error + tuple" where
  "compactOffchainAttestationPackage pkg =
     (let signer = pkg_signer pkg;
          sig0 = pkg_sig pkg;
          sig = (if isSignedOffchainAttestationV1 sig0 then convertV1AttestationToV2 sig0 else sig0)
      in case att_signature sig of
           None \<Rightarrow> Inl TypeError
         | Some signature \<Rightarrow>
             Inr [ dom_version (att_domain sig),
                   BigInt (dom_chainId (att_domain sig)),
                   dom_verifyingContract (att_domain sig),
                   sig_r signature,
                   sig_s signature,
                   sig_v signature,
                   signer,
                   att_uid sig,
                   msg_schema (att_message sig),
                   (if strict_eq (msg_recipient (att_message sig)) (String ZeroAddress)
                    then String ''0'' else msg_recipient (att_message sig)),
                   Number (Number_of_bigint (msg_time (att_message sig))),
                   Number (Number_of_bigint (msg_expirationTime (att_message sig))),
                   (if strict_eq (msg_refUID (att_message sig)) (String ZeroHash)
                    then String ''0'' else msg_refUID (att_message sig)),
                   msg_revocable (att_message sig),
                   msg_data (att_message sig),
                   Number (Finite 0),
                   msg_version (att_message sig),
                   msg_salt (att_message sig) ])"

subsection \<open>Decompaction\<close>

definition base_Attest :: "TypedData list" where
  "base_Attest =
     [ (''schema'', ''bytes32''),
       (''recipient'', ''address''),
       (''time'', ''uint64''),
       (''expirationTime'', ''uint64''),
       (''revocable'', ''bool''),
       (''refUID'', ''bytes32''),
       (''data'', ''bytes'') ]"

text \<open>The \<^verbatim>\<open>switch\<close> on the version: the field list of \<^verbatim>\<open>Attest\<close>, or the error of the default branch.\<close>

definition attest_types :: "jsval \<Rightarrow> error + EIP712MessageTypes" where
  "attest_types version =
     (if strict_eq version Legacy then Inr [(''Attest'', base_Attest)]
      else if strict_eq version Version1 then
        Inr [(''Attest'', (''version'', ''uint16'') # base_Attest)]
      else if strict_eq version Version2 then
        Inr [(''Attest'', (''version'', ''uint16'') # base_Attest @ [(''salt'', ''bytes32'')])]
      else Inl (Error (''Unsupported version: '' @ to_string version)))"

definition uncompactOffchainAttestationPackage :: "tuple \<Rightarrow> error + package" where
  "uncompactOffchainAttestationPackage compacted =
     (let version = (if truthy (slot compacted 16) then slot compacted 16 else Legacy)
      in case attest_types version of
           Inl e \<Rightarrow> Inl e
         | Inr attestTypes \<Rightarrow>
        (case js_BigInt (slot compacted 1) of
           Inl e \<Rightarrow> Inl e
         | Inr chainId \<Rightarrow>
        (case js_BigInt (slot compacted 10) of
           Inl e \<Rightarrow> Inl e
         | Inr time \<Rightarrow>
        (case js_BigInt (slot compacted 11) of
           Inl e \<Rightarrow> Inl e
         | Inr expirationTime \<Rightarrow>
             Inr \<lparr> pkg_sig =
                     \<lparr> att_version = version,
                       att_domain =
                         \<lparr> dom_name = ''EAS Attestation'',
                           dom_version = slot compacted 0,
                           dom_chainId = chainId,
                           dom_verifyingContract = slot compacted 2 \<rparr>,
                       att_primaryType =
                         (if strict_eq version Legacy then ''Attestation'' else ''Attest''),
                       att_types = attestTypes,
                       att_signature =
                         Some \<lparr> sig_r = slot compacted 3,
                                sig_s = slot compacted 4,
                                sig_v = slot compacted 5 \<rparr>,
                       att_uid = slot compacted 7,
                       att_message =
                         \<lparr> msg_version = version,
                           msg_schema = slot compacted 8,
                           msg_recipient =
                             (if strict_eq (slot compacted 9) (String ''0'')
                              then String ZeroAddress else slot compacted 9),
                           msg_time = time,
                           msg_expirationTime = expirationTime,
                           msg_revocable = slot compacted 13,
                           msg_refUID =
                             (if strict_eq (slot compacted 12) (String ''0'')
                              then String ZeroHash else slot compacted 12),
                           msg_data = slot compacted 14,
                           msg_salt = slot compacted 17 \<rparr>,
                       att_r = None,
                       att_s = None,
                       att_v = None \<rparr>,
                   pkg_signer = slot compacted 6 \<rparr>))))"

subsection \<open>The codec\<close>

text \<open>
  \<^verbatim>\<open>JSON.stringify(compacted, replacer)\<close> first passes every element through the replacer
  \<^verbatim>\<open>(_, value) => (typeof value === 'bigint' ? value.toString() : value)\<close> and then serialises
  it. Inside an array \<^verbatim>\<open>undefined\<close> is written \<^verbatim>\<open>null\<close>, and so are NaN and the infinities; a
  bigint that reaches the serialiser raises TypeError. The JSON text is kept as the sequence
  of JSON scalars it denotes, a number as the double it reads as.
\<close>

datatype json = JNull | JBool bool | JNumber int | JString string

definition replacer :: "jsval \<Rightarrow> jsval" where
  "replacer x = (case x of BigInt n \<Rightarrow> String (show_int n) | _ \<Rightarrow> x)"

fun SerializeJSONProperty :: "jsval \<Rightarrow> error + json" where
  "SerializeJSONProperty Undefined = Inr JNull"
| "SerializeJSONProperty Null = Inr JNull"
| "SerializeJSONProperty (Boolean b) = Inr (JBool b)"
| "SerializeJSONProperty (Number (Finite n)) = Inr (JNumber n)"
| "SerializeJSONProperty (Number NaN) = Inr JNull"
| "SerializeJSONProperty (Number PosInfinity) = Inr JNull"
| "SerializeJSONProperty (Number NegInfinity) = Inr JNull"
| "SerializeJSONProperty (BigInt n) = Inl TypeError"
| "SerializeJSONProperty (String s) = Inr (JString s)"

fun SerializeJSONArray :: "(jsval \<Rightarrow> jsval) \<Rightarrow> tuple \<Rightarrow> error + json list" where
  "SerializeJSONArray f [] = Inr []"
| "SerializeJSONArray f (x # xs) =
     (case SerializeJSONProperty (f x) of
        Inl e \<Rightarrow> Inl e
      | Inr j \<Rightarrow> (case SerializeJSONArray f xs of Inl e \<Rightarrow> Inl e | Inr js \<Rightarrow> Inr (j # js)))"

fun json_value :: "json \<Rightarrow> jsval" where
  "json_value JNull = Null"
| "json_value (JBool b) = Boolean b"
| "json_value (JNumber n) = Number (Finite n)"
| "json_value (JString s) = String s"

text \<open>
  The functions of the JavaScript engine and of the libraries pako and js-base64 that the
  module calls: writing and reading JSON text, \<^verbatim>\<open>pako.deflate\<close> at level 9 and
  \<^verbatim>\<open>pako.inflate\<close>, \<^verbatim>\<open>Base64.fromUint8Array\<close> and \<^verbatim>\<open>Base64.toUint8Array\<close>. They are
  parameters; \<open>lossless\<close> is what the module relies on: each reader inverts its writer.
\<close>

record ('t, 'b, 's) codec =
  json_write :: "json list \<Rightarrow> 't"
  json_read :: "'t \<Rightarrow> error + json list"
  deflate :: "'t \<Rightarrow> 'b"
  inflate :: "'b \<Rightarrow> error + 't"
  fromUint8Array :: "'b \<Rightarrow> 's"
  toUint8Array :: "'s \<Rightarrow> error + 'b"

definition lossless :: "('t, 'b, 's) codec \<Rightarrow> bool" where
  "lossless c =
     ((\<forall>js. json_read c (json_write c js) = Inr js) \<and>
      (\<forall>x. inflate c (deflate c x) = Inr x) \<and>
      (\<forall>b. toUint8Array c (fromUint8Array c b) = Inr b))"

definition JSON_stringify :: "('t, 'b, 's) codec \<Rightarrow> tuple \<Rightarrow> (jsval \<Rightarrow> jsval) \<Rightarrow> error + 't" where
  "JSON_stringify c compacted f =
     (case SerializeJSONArray f compacted of Inl e \<Rightarrow> Inl e | Inr js \<Rightarrow> Inr (json_write c js))"

definition JSON_parse :: "('t, 'b, 's) codec \<Rightarrow> 't \<Rightarrow> error + tuple" where
  "JSON_parse c jsonStr =
     (case json_read c jsonStr of Inl e \<Rightarrow> Inl e | Inr js \<Rightarrow> Inr (map json_value js))"

definition zipAndEncodeToBase64 :: "('t, 'b, 's) codec \<Rightarrow> package \<Rightarrow> error + 's" where
  "zipAndEncodeToBase64 c pkg =
     (case compactOffchainAttestationPackage pkg of
        Inl e \<Rightarrow> Inl e
      | Inr compacted \<Rightarrow>
          (case JSON_stringify c compacted replacer of
             Inl e \<Rightarrow> Inl e
           | Inr jsoned \<Rightarrow> Inr (fromUint8Array c (deflate c jsoned))))"

definition decodeBase64ZippedBase64 :: "('t, 'b, 's) codec \<Rightarrow> 's \<Rightarrow> error + package" where
  "decodeBase64ZippedBase64 c base64 =
     (case toUint8Array c base64 of
        Inl e \<Rightarrow> Inl e
      | Inr fromBase64 \<Rightarrow>
          (case inflate c fromBase64 of
             Inl e \<Rightarrow> Inl e
           | Inr jsonStr \<Rightarrow>
               (case JSON_parse c jsonStr of
                  Inl e \<Rightarrow> Inl e
                | Inr compacted \<Rightarrow> uncompactOffchainAttestationPackage compacted)))"

text \<open>The codec whose three stages write what they are given: it is lossless.\<close>

definition plain_codec :: "(json list, json list, json list) codec" where
  "plain_codec =
     \<lparr> json_write = (\<lambda>js. js), json_read = Inr,
       deflate = (\<lambda>x. x), inflate = Inr,
       fromUint8Array = (\<lambda>b. b), toUint8Array = Inr \<rparr>"

subsection \<open>Notions the properties are stated with\<close>

text \<open>\<open>decompact(compact(P))\<close>, and the full pipeline \<open>decodeFromText(encodeToText(P))\<close>.\<close>

definition roundtrip :: "package \<Rightarrow> error + package" where
  "roundtrip pkg =
     (case compactOffchainAttestationPackage pkg of
        Inl e \<Rightarrow> Inl e
      | Inr compacted \<Rightarrow> uncompactOffchainAttestationPackage compacted)"

definition pipeline :: "('t, 'b, 's) codec \<Rightarrow> package \<Rightarrow> error + package" where
  "pipeline c pkg =
     (case zipAndEncodeToBase64 c pkg of
        Inl e \<Rightarrow> Inl e
      | Inr base64 \<Rightarrow> decodeBase64ZippedBase64 c base64)"

text \<open>The JSON scalars of the wire form of a package.\<close>

definition wire_form :: "package \<Rightarrow> error + json list" where
  "wire_form pkg =
     (case compactOffchainAttestationPackage pkg of
        Inl e \<Rightarrow> Inl e
      | Inr compacted \<Rightarrow> SerializeJSONArray replacer compacted)"

text \<open>One slot of a result, to state what a concrete tuple or wire form holds there.\<close>

definition slot_of :: "error + 'a list \<Rightarrow> nat \<Rightarrow> 'a option" where
  "slot_of res i = (case res of Inl e \<Rightarrow> None | Inr xs \<Rightarrow> if i < length xs then Some (xs ! i) else None)"

text \<open>What the serialiser writes for a slot after the replacer.\<close>

fun wire :: "jsval \<Rightarrow> json" where
  "wire Undefined = JNull"
| "wire Null = JNull"
| "wire (Boolean b) = JBool b"
| "wire (Number (Finite n)) = JNumber n"
| "wire (Number NaN) = JNull"
| "wire (Number PosInfinity) = JNull"
| "wire (Number NegInfinity) = JNull"
| "wire (BigInt n) = JString (show_int n)"
| "wire (String s) = JString s"

text \<open>The exact-integer-safe range of a double: magnitudes up to \<open>2^53 - 1\<close>.\<close>

definition safe_integer :: "int \<Rightarrow> bool" where
  "safe_integer n = (\<bar>n\<bar> \<le> 2 ^ 53 - 1)"

definition finite_number :: "jsnum \<Rightarrow> bool" where
  "finite_number x = (case x of Finite n \<Rightarrow> True | _ \<Rightarrow> False)"

definition is_digit :: "char \<Rightarrow> bool" where
  "is_digit c = (48 \<le> (of_char c :: nat) \<and> (of_char c :: nat) \<le> 57)"

definition is_String :: "jsval \<Rightarrow> bool" where
  "is_String x = (case x of String s \<Rightarrow> True | _ \<Rightarrow> False)"

definition is_Boolean :: "jsval \<Rightarrow> bool" where
  "is_Boolean x = (case x of Boolean b \<Rightarrow> True | _ \<Rightarrow> False)"

definition is_Number :: "jsval \<Rightarrow> bool" where
  "is_Number x = (case x of Number (Finite n) \<Rightarrow> True | _ \<Rightarrow> False)"

text \<open>
  A Legacy, V1 or V2 signed package: the nested shape, its version one of the three tags and
  the one its message resolves to (a message without a version is a Legacy one), the fixed
  domain name, the primary type and the field list of that version, and a recipient and a
  refUID that are not the sentinel itself.
\<close>

definition signed_package :: "package \<Rightarrow> bool" where
  "signed_package pkg =
     (let sig = pkg_sig pkg; m = att_message sig; version = att_version sig
      in (version = Legacy \<or> version = Version1 \<or> version = Version2) \<and>
         version = (if truthy (msg_version m) then msg_version m else Legacy) \<and>
         dom_name (att_domain sig) = ''EAS Attestation'' \<and>
         att_primaryType sig = (if version = Legacy then ''Attestation'' else ''Attest'') \<and>
         attest_types version = Inr (att_types sig) \<and>
         att_signature sig \<noteq> None \<and>
         att_r sig = None \<and> att_s sig = None \<and> att_v sig = None \<and>
         msg_recipient m \<noteq> String ''0'' \<and>
         msg_refUID m \<noteq> String ''0'')"

text \<open>The same package with the version of its message set.\<close>

definition with_message_version :: "jsval \<Rightarrow> package \<Rightarrow> package" where
  "with_message_version x pkg =
     pkg \<lparr> pkg_sig := (pkg_sig pkg) \<lparr> att_message := (att_message (pkg_sig pkg)) \<lparr> msg_version := x \<rparr> \<rparr> \<rparr>"

definition with_message_salt :: "jsval \<Rightarrow> package \<Rightarrow> package" where
  "with_message_salt x pkg =
     pkg \<lparr> pkg_sig := (pkg_sig pkg) \<lparr> att_message := (att_message (pkg_sig pkg)) \<lparr> msg_salt := x \<rparr> \<rparr> \<rparr>"

text \<open>The same package with the two times of its message set.\<close>

definition with_message_times :: "int \<Rightarrow> int \<Rightarrow> package \<Rightarrow> package" where
  "with_message_times k j pkg =
     pkg \<lparr> pkg_sig := (pkg_sig pkg)
       \<lparr> att_message := (att_message (pkg_sig pkg)) \<lparr> msg_time := k, msg_expirationTime := j \<rparr> \<rparr> \<rparr>"

text \<open>The times of the data model are unsigned 64-bit integers.\<close>

definition is_uint64 :: "int \<Rightarrow> bool" where
  "is_uint64 n = (0 \<le> n \<and> n < 2 ^ 64)"

text \<open>
  The fields of a package hold values of their declared types: strings, the boolean
  \<^verbatim>\<open>revocable\<close>, the number \<^verbatim>\<open>v\<close>, an optional numeric version and an optional string salt.
\<close>

definition well_typed :: "package \<Rightarrow> bool" where
  "well_typed pkg =
     (let sig = pkg_sig pkg; m = att_message sig; d = att_domain sig
      in is_String (dom_version d) \<and> is_String (dom_verifyingContract d) \<and>
         (case att_signature sig of
            None \<Rightarrow> False
          | Some g \<Rightarrow> is_String (sig_r g) \<and> is_String (sig_s g) \<and> is_Number (sig_v g)) \<and>
         is_String (pkg_signer pkg) \<and> is_String (att_uid sig) \<and>
         is_String (msg_schema m) \<and> is_String (msg_recipient m) \<and>
         is_String (msg_refUID m) \<and> is_Boolean (msg_revocable m) \<and>
         is_String (msg_data m) \<and>
         (msg_version m = Undefined \<or> is_Number (msg_version m)) \<and>
         (msg_salt m = Undefined \<or> is_String (msg_salt m)))"

subsection \<open>Sample packages\<close>

text \<open>
  The Legacy package of the spec's scenario: schema of 32 zero bytes, recipient the zero
  address, time 1000, no expiration, revocable, refUID the zero hash, data \<^verbatim>\<open>0x1234\<close>,
  \<^verbatim>\<open>v = 27\<close>, and a message without version and salt.
\<close>

definition sample_domain :: eip712_domain where
  "sample_domain =
     \<lparr> dom_name = ''EAS Attestation'',
       dom_version = String ''0.26'',
       dom_chainId = 1,
       dom_verifyingContract = String ''0xC2679fBD37d54388Ce493F1DB75320D236e1815e'' \<rparr>"

definition sample_signature :: ecdsa_signature where
  "sample_signature =
     \<lparr> sig_r = String ''0x1111111111111111111111111111111111111111111111111111111111111111'',
       sig_s = String ''0x2222222222222222222222222222222222222222222222222222222222222222'',
       sig_v = Number (Finite 27) \<rparr>"

definition legacy_message :: attestation_message where
  "legacy_message =
     \<lparr> msg_version = Undefined,
       msg_schema = String ''0x0000000000000000000000000000000000000000000000000000000000000000'',
       msg_recipient = String ''0x0000000000000000000000000000000000000000'',
       msg_time = 1000,
       msg_expirationTime = 0,
       msg_revocable = Boolean True,
       msg_refUID = String ''0x0000000000000000000000000000000000000000000000000000000000000000'',
       msg_data = String ''0x1234'',
       msg_salt = Undefined \<rparr>"

definition legacy_sample :: package where
  "legacy_sample =
     \<lparr> pkg_sig =
         \<lparr> att_version = Legacy,
           att_domain = sample_domain,
           att_primaryType = ''Attestation'',
           att_types = [(''Attest'', base_Attest)],
           att_signature = Some sample_signature,
           att_uid = String ''0x3333333333333333333333333333333333333333333333333333333333333333'',
           att_message = legacy_message,
           att_r = None, att_s = None, att_v = None \<rparr>,
       pkg_signer = String ''0x4444444444444444444444444444444444444444'' \<rparr>"

text \<open>A V1 package: the version 1 in the message, the leading version field, no salt.\<close>

definition v1_sample :: package where
  "v1_sample =
     legacy_sample
       \<lparr> pkg_sig := (pkg_sig legacy_sample)
           \<lparr> att_version := Version1,
             att_primaryType := ''Attest'',
             att_types := [(''Attest'', (''version'', ''uint16'') # base_Attest)],
             att_message := legacy_message \<lparr> msg_version := Version1 \<rparr> \<rparr> \<rparr>"

text \<open>The V2 package of the spec's scenario: version 2 and the 32-byte salt \<^verbatim>\<open>0xabcd...\<close>.\<close>

definition v2_sample :: package where
  "v2_sample =
     legacy_sample
       \<lparr> pkg_sig := (pkg_sig legacy_sample)
           \<lparr> att_version := Version2,
             att_primaryType := ''Attest'',
             att_types :=
               [(''Attest'', (''version'', ''uint16'') # base_Attest @ [(''salt'', ''bytes32'')])],
             att_message := legacy_message
               \<lparr> msg_version := Version2,
                 msg_salt := String ''0xabcdabcdabcdabcdabcdabcdabcdabcdabcdabcdabcdabcdabcdabcdabcdabcd'' \<rparr> \<rparr> \<rparr>"

text \<open>
  A flat object: \<^verbatim>\<open>r\<close>, \<^verbatim>\<open>s\<close>, \<^verbatim>\<open>v\<close> at the top level, no nested signature and no version, its
  message without a version.
\<close>

definition flat_sample :: package where
  "flat_sample =
     legacy_sample
       \<lparr> pkg_sig := (pkg_sig legacy_sample)
           \<lparr> att_version := Undefined,
             att_signature := None,
             att_r := Some (sig_r sample_signature),
             att_s := Some (sig_s sample_signature),
             att_v := Some (sig_v sample_signature) \<rparr> \<rparr>"

text \<open>
  A flat V1 object: the V1 package with \<^verbatim>\<open>r\<close>, \<^verbatim>\<open>s\<close>, \<^verbatim>\<open>v\<close> at the top level; its message
  carries the version 1.
\<close>

definition flat_v1_sample :: package where
  "flat_v1_sample =
     v1_sample
       \<lparr> pkg_sig := (pkg_sig v1_sample)
           \<lparr> att_version := Undefined,
             att_signature := None,
             att_r := Some (sig_r sample_signature),
             att_s := Some (sig_s sample_signature),
             att_v := Some (sig_v sample_signature) \<rparr> \<rparr>"

text \<open>The V2 package with a time beyond the exact-integer-safe range, \<open>2^53 + 2\<close>.\<close>

definition far_future_sample :: package where
  "far_future_sample =
     v2_sample
       \<lparr> pkg_sig := (pkg_sig v2_sample)
           \<lparr> att_message := (att_message (pkg_sig v2_sample)) \<lparr> msg_time := 9007199254740994 \<rparr> \<rparr> \<rparr>"

text \<open>The V2 package with the time \<open>2^53 + 1\<close>, which is not a double.\<close>

definition lossy_sample :: package where
  "lossy_sample =
     v2_sample
       \<lparr> pkg_sig := (pkg_sig v2_sample)
           \<lparr> att_message := (att_message (pkg_sig v2_sample)) \<lparr> msg_time := 9007199254740993 \<rparr> \<rparr> \<rparr>"

text \<open>
  The tuple of the Legacy scenario without its two trailing slots, as a sender that predates
  them writes it, and the tuple of the V2 scenario.
\<close>

definition legacy_tuple :: tuple where
  "legacy_tuple =
     [ String ''0.26'', BigInt 1, String ''0xC2679fBD37d54388Ce493F1DB75320D236e1815e'',
       String ''0x1111111111111111111111111111111111111111111111111111111111111111'',
       String ''0x2222222222222222222222222222222222222222222222222222222222222222'',
       Number (Finite 27),
       String ''0x4444444444444444444444444444444444444444'',
       String ''0x3333333333333333333333333333333333333333333333333333333333333333'',
       String ''0x0000000000000000000000000000000000000000000000000000000000000000'',
       String ''0'', Number (Finite 1000), Number (Finite 0), String ''0'',
       Boolean True, String ''0x1234'', Number (Finite 0) ]"

definition v2_tuple :: tuple where
  "v2_tuple =
     legacy_tuple @
     [ Version2, String ''0xabcdabcdabcdabcdabcdabcdabcdabcdabcdabcdabcdabcdabcdabcdabcdabcd'' ]"

section \<open>Properties\<close>

subsection \<open>Decimal text reads back\<close>

lemma of_char_digit_char: "d < 10 \<Longrightarrow> (of_char (digit_char d) :: nat) = 48 + d"
  by (simp add: digit_char_def)

lemma digit_val_digit_char: "d < 10 \<Longrightarrow> digit_val (digit_char d) = Some d"
  by (simp add: digit_val_def of_char_digit_char Let_def)

lemma parse_digits_append:
  "parse_digits b acc (xs @ ys) =
     (case parse_digits b acc xs of None \<Rightarrow> None | Some a \<Rightarrow> parse_digits b a ys)"
  by (induction xs arbitrary: acc) (auto split: option.splits)

lemma parse_digits_show_nat: "parse_digits 10 0 (show_nat n) = Some n"
proof (induction n rule: show_nat.induct)
  case (1 n)
  show ?case
  proof (cases "n < 10")
    case True
    then show ?thesis
      by (subst show_nat.simps) (simp add: digit_val_digit_char)
  next
    case False
    with 1 have "parse_digits 10 0 (show_nat (n div 10)) = Some (n div 10)" by simp
    with False show ?thesis
      by (subst show_nat.simps) (simp add: parse_digits_append digit_val_digit_char)
  qed
qed

lemma show_nat_nonempty: "show_nat n \<noteq> []"
  by (subst show_nat.simps) simp

lemma show_nat_digits: "c \<in> set (show_nat n) \<Longrightarrow> is_digit c"
proof (induction n arbitrary: c rule: show_nat.induct)
  case (1 n)
  show ?case
  proof (cases "n < 10")
    case True
    with 1(2) show ?thesis by (subst (asm) show_nat.simps) (simp add: is_digit_def of_char_digit_char)
  next
    case False
    with 1 show ?thesis by (subst (asm) (2) show_nat.simps) (auto simp add: is_digit_def of_char_digit_char)
  qed
qed

lemma is_digit_not_ws: "is_digit c \<Longrightarrow> \<not> is_ws c"
  by (auto simp: is_digit_def is_ws_def)

lemma dropWhile_hd: "s \<noteq> [] \<Longrightarrow> \<not> P (hd s) \<Longrightarrow> dropWhile P s = s"
  by (cases s) auto

lemma trim_id: "s \<noteq> [] \<Longrightarrow> \<not> is_ws (hd s) \<Longrightarrow> \<not> is_ws (last s) \<Longrightarrow> trim s = s"
  by (simp add: trim_def dropWhile_hd hd_rev)

lemma show_nat_hd_last: "is_digit (hd (show_nat n))" "is_digit (last (show_nat n))"
  using show_nat_nonempty[of n] show_nat_digits[of _ n] by auto

lemma not_ws_minus: "\<not> is_ws (CHR ''-'')"
  by (simp add: is_ws_def)

lemma trim_show_int: "trim (show_int i) = show_int i"
  by (rule trim_id) (auto simp: show_int_def show_nat_nonempty show_nat_hd_last is_digit_not_ws not_ws_minus)

lemma is_digit_neq:
  "is_digit c \<Longrightarrow> c \<noteq> CHR ''x'' \<and> c \<noteq> CHR ''X'' \<and> c \<noteq> CHR ''o'' \<and> c \<noteq> CHR ''O'' \<and>
     c \<noteq> CHR ''b'' \<and> c \<noteq> CHR ''B'' \<and> c \<noteq> CHR ''-'' \<and> c \<noteq> CHR ''+''"
  by (auto simp: is_digit_def)

lemma StringToBigInt_trimmed_digits:
  assumes "s \<noteq> []" "\<forall>c \<in> set s. is_digit c"
  shows "StringToBigInt_trimmed s = map_option int (parse_digits 10 0 s)"
proof (cases s)
  case Nil
  with assms show ?thesis by simp
next
  case (Cons c cs)
  show ?thesis
  proof (cases cs)
    case Nil
    with Cons show ?thesis by (simp add: parse_nonempty_def)
  next
    case (Cons d ds)
    with assms \<open>s = c # cs\<close> have "is_digit c" "is_digit d" by auto
    with is_digit_neq[of c] is_digit_neq[of d] Cons \<open>s = c # cs\<close> show ?thesis
      by (simp add: parse_nonempty_def)
  qed
qed

lemma StringToBigInt_show_int: "StringToBigInt (show_int i) = Some i"
proof (cases "i < 0")
  case False
  then show ?thesis
    using StringToBigInt_trimmed_digits[of "show_nat (nat i)"] show_nat_digits[of _ "nat i"]
    by (simp add: StringToBigInt_def trim_show_int)
       (simp add: show_int_def show_nat_nonempty parse_digits_show_nat)
next
  case True
  obtain d ds where ds: "show_nat (nat (- i)) = d # ds"
    using show_nat_nonempty[of "nat (- i)"] by (cases "show_nat (nat (- i))") auto
  have "parse_digits 10 0 (d # ds) = Some (nat (- i))"
    using parse_digits_show_nat[of "nat (- i)"] ds by simp
  with True ds show ?thesis
    by (simp add: StringToBigInt_def trim_show_int)
       (simp add: show_int_def parse_nonempty_def)
qed

lemma js_BigInt_show_int: "js_BigInt (String (show_int i)) = Inr i"
  by (simp add: StringToBigInt_show_int)


subsection \<open>Compaction and decompaction, slot by slot\<close>

lemma strict_eq_String [simp]: "strict_eq a (String s) = (a = String s)"
  by (auto simp: strict_eq_def)

lemma strict_eq_tags [simp]:
  "strict_eq a Legacy = (a = Legacy)"
  "strict_eq a Version1 = (a = Version1)"
  "strict_eq a Version2 = (a = Version2)"
  by (auto simp: strict_eq_def Legacy_def Version1_def Version2_def)

lemma compact_nested:
  assumes "\<not> isSignedOffchainAttestationV1 (pkg_sig pkg)" "att_signature (pkg_sig pkg) = Some g"
  shows "compactOffchainAttestationPackage pkg =
     Inr [ dom_version (att_domain (pkg_sig pkg)),
           BigInt (dom_chainId (att_domain (pkg_sig pkg))),
           dom_verifyingContract (att_domain (pkg_sig pkg)),
           sig_r g, sig_s g, sig_v g,
           pkg_signer pkg,
           att_uid (pkg_sig pkg),
           msg_schema (att_message (pkg_sig pkg)),
           (if msg_recipient (att_message (pkg_sig pkg)) = String ZeroAddress
            then String ''0'' else msg_recipient (att_message (pkg_sig pkg))),
           Number (Number_of_bigint (msg_time (att_message (pkg_sig pkg)))),
           Number (Number_of_bigint (msg_expirationTime (att_message (pkg_sig pkg)))),
           (if msg_refUID (att_message (pkg_sig pkg)) = String ZeroHash
            then String ''0'' else msg_refUID (att_message (pkg_sig pkg))),
           msg_revocable (att_message (pkg_sig pkg)),
           msg_data (att_message (pkg_sig pkg)),
           Number (Finite 0),
           msg_version (att_message (pkg_sig pkg)),
           msg_salt (att_message (pkg_sig pkg)) ]"
  using assms by (simp add: compactOffchainAttestationPackage_def Let_def)

lemma compact_flat:
  assumes "isSignedOffchainAttestationV1 (pkg_sig pkg)"
  shows "compactOffchainAttestationPackage pkg =
     Inr [ dom_version (att_domain (pkg_sig pkg)),
           BigInt (dom_chainId (att_domain (pkg_sig pkg))),
           dom_verifyingContract (att_domain (pkg_sig pkg)),
           key_value (att_r (pkg_sig pkg)), key_value (att_s (pkg_sig pkg)),
           key_value (att_v (pkg_sig pkg)),
           pkg_signer pkg,
           att_uid (pkg_sig pkg),
           msg_schema (att_message (pkg_sig pkg)),
           (if msg_recipient (att_message (pkg_sig pkg)) = String ZeroAddress
            then String ''0'' else msg_recipient (att_message (pkg_sig pkg))),
           Number (Number_of_bigint (msg_time (att_message (pkg_sig pkg)))),
           Number (Number_of_bigint (msg_expirationTime (att_message (pkg_sig pkg)))),
           (if msg_refUID (att_message (pkg_sig pkg)) = String ZeroHash
            then String ''0'' else msg_refUID (att_message (pkg_sig pkg))),
           msg_revocable (att_message (pkg_sig pkg)),
           msg_data (att_message (pkg_sig pkg)),
           Number (Finite 0),
           msg_version (att_message (pkg_sig pkg)),
           msg_salt (att_message (pkg_sig pkg)) ]"
  using assms by (simp add: compactOffchainAttestationPackage_def convertV1AttestationToV2_def Let_def)

lemma uncompact_accepts:
  assumes "attest_types (if truthy (slot t 16) then slot t 16 else Legacy) = Inr ty"
    and "js_BigInt (slot t 1) = Inr c"
    and "js_BigInt (slot t 10) = Inr tm"
    and "js_BigInt (slot t 11) = Inr ex"
  shows "uncompactOffchainAttestationPackage t =
     Inr \<lparr> pkg_sig =
             \<lparr> att_version = (if truthy (slot t 16) then slot t 16 else Legacy),
               att_domain =
                 \<lparr> dom_name = ''EAS Attestation'', dom_version = slot t 0,
                   dom_chainId = c, dom_verifyingContract = slot t 2 \<rparr>,
               att_primaryType =
                 (if (if truthy (slot t 16) then slot t 16 else Legacy) = Legacy
                  then ''Attestation'' else ''Attest''),
               att_types = ty,
               att_signature = Some \<lparr> sig_r = slot t 3, sig_s = slot t 4, sig_v = slot t 5 \<rparr>,
               att_uid = slot t 7,
               att_message =
                 \<lparr> msg_version = (if truthy (slot t 16) then slot t 16 else Legacy),
                   msg_schema = slot t 8,
                   msg_recipient = (if slot t 9 = String ''0'' then String ZeroAddress else slot t 9),
                   msg_time = tm,
                   msg_expirationTime = ex,
                   msg_revocable = slot t 13,
                   msg_refUID = (if slot t 12 = String ''0'' then String ZeroHash else slot t 12),
                   msg_data = slot t 14,
                   msg_salt = slot t 17 \<rparr>,
               att_r = None, att_s = None, att_v = None \<rparr>,
           pkg_signer = slot t 6 \<rparr>"
  using assms by (simp add: uncompactOffchainAttestationPackage_def Let_def)

lemma slot_simps [simp]:
  "slot (x # xs) 0 = x"
  "slot (x # xs) (numeral k) = slot xs (pred_numeral k)"
  "slot (x # xs) (Suc n) = slot xs n"
  "slot [] n = Undefined"
  by (simp_all add: slot_def nth_Cons_numeral)


lemma Number_of_bigint_safe: "safe_integer n \<Longrightarrow> Number_of_bigint n = Finite n"
  by (auto simp: safe_integer_def Number_of_bigint_def round_to_double_def Let_def)

text \<open>Beyond the safe range the conversion can lose the value: \<open>2^53 + 1\<close> becomes \<open>2^53\<close>.\<close>

lemma lossy_beyond_safe_range:
  "Number_of_bigint 9007199254740993 = Finite 9007199254740992"
  by (simp add: Number_of_bigint_def round_to_double_def bitlen.simps Let_def)

lemma not_finite_BigInt:
  "\<not> finite_number x \<Longrightarrow> js_BigInt (Number x) = Inl RangeError"
  by (cases x) (simp_all add: finite_number_def)

lemma uncompact_rejects_time:
  assumes "attest_types (if truthy (slot t 16) then slot t 16 else Legacy) = Inr ty"
    and "js_BigInt (slot t 1) = Inr c"
    and "js_BigInt (slot t 10) = Inl e"
  shows "uncompactOffchainAttestationPackage t = Inl e"
  using assms by (simp add: uncompactOffchainAttestationPackage_def Let_def)

lemma uncompact_rejects_expirationTime:
  assumes "attest_types (if truthy (slot t 16) then slot t 16 else Legacy) = Inr ty"
    and "js_BigInt (slot t 1) = Inr c"
    and "js_BigInt (slot t 10) = Inr tm"
    and "js_BigInt (slot t 11) = Inl e"
  shows "uncompactOffchainAttestationPackage t = Inl e"
  using assms by (simp add: uncompactOffchainAttestationPackage_def Let_def)

lemma roundtrip_signed_package_times:
  assumes sp: "signed_package pkg"
  shows "roundtrip pkg =
     (case Number_of_bigint (msg_time (att_message (pkg_sig pkg))) of
        Finite k \<Rightarrow>
          (case Number_of_bigint (msg_expirationTime (att_message (pkg_sig pkg))) of
             Finite j \<Rightarrow>
               Inr (with_message_times k j (with_message_version (att_version (pkg_sig pkg)) pkg))
           | _ \<Rightarrow> Inl RangeError)
      | _ \<Rightarrow> Inl RangeError)"
proof -
  obtain sg sr where pkg: "pkg = \<lparr> pkg_sig = sg, pkg_signer = sr \<rparr>" by (cases pkg)
  obtain ver d pt ty sgn uid m r s v where
    sg: "sg = \<lparr> att_version = ver, att_domain = d, att_primaryType = pt, att_types = ty,
                att_signature = sgn, att_uid = uid, att_message = m,
                att_r = r, att_s = s, att_v = v \<rparr>"
    by (cases sg)
  obtain dn dv dc dvc where
    d: "d = \<lparr> dom_name = dn, dom_version = dv, dom_chainId = dc, dom_verifyingContract = dvc \<rparr>"
    by (cases d)
  obtain mv ms mr mt me mrev mref md msl where
    m: "m = \<lparr> msg_version = mv, msg_schema = ms, msg_recipient = mr, msg_time = mt,
              msg_expirationTime = me, msg_revocable = mrev, msg_refUID = mref,
              msg_data = md, msg_salt = msl \<rparr>"
    by (cases m)
  from sp pkg sg obtain g where g: "sgn = Some g"
    by (auto simp: signed_package_def Let_def)
  obtain gr gs gv where gg: "g = \<lparr> sig_r = gr, sig_s = gs, sig_v = gv \<rparr>" by (cases g)
  have sel: "pkg_sig pkg = sg" "att_message sg = m" "att_version sg = ver" "att_domain sg = d"
    "dom_name d = dn" "att_primaryType sg = pt" "att_types sg = ty" "att_signature sg = sgn"
    "att_r sg = r" "att_s sg = s" "att_v sg = v" "msg_recipient m = mr" "msg_refUID m = mref"
    "msg_version m = mv" "msg_time m = mt" "msg_expirationTime m = me"
    by (simp_all add: pkg sg d m)
  note sp[unfolded signed_package_def Let_def sel]
  then have facts:
    "ver = (if truthy mv then mv else Legacy)" "dn = ''EAS Attestation''"
    "pt = (if ver = Legacy then ''Attestation'' else ''Attest'')"
    "attest_types ver = Inr ty" "r = None" "s = None" "v = None"
    "mr \<noteq> String ''0''" "mref \<noteq> String ''0''"
    by blast+
  have nf: "\<not> isSignedOffchainAttestationV1 (pkg_sig pkg)"
    by (simp add: isSignedOffchainAttestationV1_def pkg sg facts)
  let ?t = "[dv, BigInt dc, dvc, gr, gs, gv, sr, uid, ms,
           (if mr = String ZeroAddress then String ''0'' else mr),
           Number (Number_of_bigint mt), Number (Number_of_bigint me),
           (if mref = String ZeroHash then String ''0'' else mref),
           mrev, md, Number (Finite 0), mv, msl]"
  have c: "compactOffchainAttestationPackage pkg = Inr ?t"
    using compact_nested[OF nf, of g]
    by (simp add: pkg sg d m g gg)
  have s16: "slot ?t 16 = mv" by simp
  have at: "attest_types (if truthy (slot ?t 16) then slot ?t 16 else Legacy) = Inr ty"
    unfolding s16 by (rule facts(4)[unfolded facts(1)])
  have e10: "uncompactOffchainAttestationPackage ?t = Inl RangeError"
    if "\<not> finite_number (Number_of_bigint mt)"
    by (rule uncompact_rejects_time[OF at, where c = dc]) (simp_all add: not_finite_BigInt that)
  have e11: "uncompactOffchainAttestationPackage ?t = Inl RangeError"
    if "Number_of_bigint mt = Finite k" "\<not> finite_number (Number_of_bigint me)" for k
    by (rule uncompact_rejects_expirationTime[OF at, where c = dc and tm = k])
       (simp_all add: not_finite_BigInt that)
  have ok: "uncompactOffchainAttestationPackage ?t =
      Inr (with_message_times k j (with_message_version ver pkg))"
    if "Number_of_bigint mt = Finite k" "Number_of_bigint me = Finite j" for k j
    unfolding that
    by (subst uncompact_accepts[where ty = ty and c = dc and tm = k and ex = j])
       (use facts in \<open>auto simp: with_message_version_def with_message_times_def
          pkg sg d m g gg\<close>)
  have r: "roundtrip pkg = uncompactOffchainAttestationPackage ?t"
    by (simp only: roundtrip_def c sum.case)
  show ?thesis
  proof (cases "Number_of_bigint mt")
    case (Finite k)
    note k = this
    show ?thesis
    proof (cases "Number_of_bigint me")
      case (Finite j)
      with k ok[OF k Finite] show ?thesis by (simp only: r sel jsnum.case)
    next
      case NaN
      with k e11[OF k] show ?thesis by (simp only: r sel jsnum.case finite_number_def) simp
    next
      case PosInfinity
      with k e11[OF k] show ?thesis by (simp only: r sel jsnum.case finite_number_def) simp
    next
      case NegInfinity
      with k e11[OF k] show ?thesis by (simp only: r sel jsnum.case finite_number_def) simp
    qed
  next
    case NaN
    with e10 show ?thesis by (simp only: r sel jsnum.case finite_number_def) simp
  next
    case PosInfinity
    with e10 show ?thesis by (simp only: r sel jsnum.case finite_number_def) simp
  next
    case NegInfinity
    with e10 show ?thesis by (simp only: r sel jsnum.case finite_number_def) simp
  qed
qed

lemma roundtrip_signed_package:
  assumes "signed_package pkg"
    and "Number_of_bigint (msg_time (att_message (pkg_sig pkg))) = Finite k"
    and "Number_of_bigint (msg_expirationTime (att_message (pkg_sig pkg))) = Finite j"
  shows "roundtrip pkg =
           Inr (with_message_times k j (with_message_version (att_version (pkg_sig pkg)) pkg))"
  using roundtrip_signed_package_times[OF assms(1)] assms(2,3) by simp

lemma with_message_times_same:
  "with_message_times (msg_time (att_message (pkg_sig pkg)))
     (msg_expirationTime (att_message (pkg_sig pkg))) pkg = pkg"
  by (simp add: with_message_times_def)

lemma with_message_version_times:
  "msg_time (att_message (pkg_sig (with_message_version x pkg))) =
     msg_time (att_message (pkg_sig pkg))"
  "msg_expirationTime (att_message (pkg_sig (with_message_version x pkg))) =
     msg_expirationTime (att_message (pkg_sig pkg))"
  by (simp_all add: with_message_version_def)

text \<open>A time of the data model is finite as a number.\<close>

lemma bitlen_bound: "0 < m \<Longrightarrow> 2 ^ bitlen m \<le> 2 * m"
proof (induction m rule: bitlen.induct)
  case (1 n)
  show ?case
  proof (cases "n div 2 = 0")
    case True
    with 1(2) have "n = 1" by (cases n) auto
    then show ?thesis by (simp add: bitlen.simps)
  next
    case False
    with 1 have "2 ^ bitlen (n div 2) \<le> 2 * (n div 2)" by simp
    moreover have "2 * (n div 2) \<le> n" by simp
    ultimately show ?thesis using 1(2) by (subst bitlen.simps) simp
  qed
qed

lemma bitlen_pos: "0 < m \<Longrightarrow> 0 < bitlen m"
  by (subst bitlen.simps) simp

lemma round_to_double_le: "round_to_double m \<le> 2 * m"
proof (cases "m < 2 ^ 53")
  case True
  then show ?thesis by (simp add: round_to_double_def)
next
  case False
  define e where "e = bitlen m - 53"
  define q where "q = m div 2 ^ e"
  from False have pos: "0 < m" by (cases m) auto
  have "e \<le> bitlen m - 1" by (simp add: e_def)
  then have "(2::nat) ^ e \<le> 2 ^ (bitlen m - 1)" by (rule power_increasing) simp
  moreover have "2 * (2::nat) ^ (bitlen m - 1) = 2 ^ bitlen m"
    using bitlen_pos[OF pos] by (cases "bitlen m") simp_all
  moreover note bitlen_bound[OF pos]
  ultimately have pe: "2 ^ e \<le> m" by linarith
  have qe: "q * 2 ^ e \<le> m" by (simp add: q_def)
  have "round_to_double m \<le> (q + 1) * 2 ^ e"
    using False by (simp add: round_to_double_def Let_def e_def q_def)
  also have "\<dots> = q * 2 ^ e + 2 ^ e" by (simp add: algebra_simps)
  also have "\<dots> \<le> 2 * m" using pe qe by linarith
  finally show ?thesis .
qed

lemma Number_of_bigint_finite:
  assumes "\<bar>n\<bar> < 2 ^ 1023"
  shows "finite_number (Number_of_bigint n)"
proof -
  have "nat \<bar>n\<bar> < 2 ^ 1023" using assms by (simp add: nat_less_iff)
  with round_to_double_le[of "nat \<bar>n\<bar>"] have "round_to_double (nat \<bar>n\<bar>) < 2 ^ 1024"
    by simp
  then show ?thesis by (simp add: Number_of_bigint_def finite_number_def Let_def)
qed

lemma uint64_finite: "is_uint64 n \<Longrightarrow> finite_number (Number_of_bigint n)"
proof (rule Number_of_bigint_finite)
  assume "is_uint64 n"
  then have "\<bar>n\<bar> < 2 ^ 64" by (simp add: is_uint64_def)
  also have "(2::int) ^ 64 < 2 ^ 1023" by simp
  finally show "\<bar>n\<bar> < 2 ^ 1023" .
qed

lemma plain_codec_lossless: "lossless plain_codec"
  by (simp add: lossless_def plain_codec_def)

subsection \<open>The wire form and the pipeline\<close>

lemma Serialize_replacer: "SerializeJSONProperty (replacer x) = Inr (wire x)"
  by (cases x rule: wire.cases) (simp_all add: replacer_def)

lemma Serialize_plain: "\<forall>n. x \<noteq> BigInt n \<Longrightarrow> SerializeJSONProperty x = Inr (wire x)"
  by (cases x rule: wire.cases) simp_all

lemma SerializeJSONArray_replacer: "SerializeJSONArray replacer t = Inr (map wire t)"
  by (induction t) (simp_all add: Serialize_replacer)

lemma wire_form_eq:
  "compactOffchainAttestationPackage pkg = Inr t \<Longrightarrow> wire_form pkg = Inr (map wire t)"
  by (simp add: wire_form_def SerializeJSONArray_replacer)

lemma zip_eq:
  "compactOffchainAttestationPackage pkg = Inr t \<Longrightarrow>
   zipAndEncodeToBase64 c pkg = Inr (fromUint8Array c (deflate c (json_write c (map wire t))))"
  by (simp add: zipAndEncodeToBase64_def JSON_stringify_def SerializeJSONArray_replacer)

lemma decode_eq:
  "lossless c \<Longrightarrow>
   decodeBase64ZippedBase64 c (fromUint8Array c (deflate c (json_write c js))) =
     uncompactOffchainAttestationPackage (map json_value js)"
  by (simp add: decodeBase64ZippedBase64_def JSON_parse_def lossless_def)

lemma pipeline_eq:
  assumes "lossless c" "compactOffchainAttestationPackage pkg = Inr t"
  shows "pipeline c pkg = uncompactOffchainAttestationPackage (map (\<lambda>x. json_value (wire x)) t)"
  using assms by (simp add: pipeline_def zip_eq decode_eq comp_def)

lemma reread [simp]:
  "is_String x \<Longrightarrow> json_value (wire x) = x"
  "is_Boolean x \<Longrightarrow> json_value (wire x) = x"
  "is_Number x \<Longrightarrow> json_value (wire x) = x"
  "json_value (wire (Number (Finite n))) = Number (Finite n)"
  "json_value (wire (String s)) = String s"
  "json_value (wire Undefined) = Null"
  "json_value (wire (BigInt n)) = String (show_int n)"
  by (cases x rule: wire.cases; simp add: is_String_def is_Boolean_def is_Number_def)+

lemma reread_falsy: "\<not> truthy x \<Longrightarrow> x = Undefined \<or> is_Number x \<Longrightarrow> \<not> truthy (json_value (wire x))"
  by (cases x rule: wire.cases) (simp_all add: is_Number_def)

lemma reread_truthy_Number: "is_Number x \<Longrightarrow> json_value (wire x) = x"
  by simp

lemma uncompact_resolved:
  assumes "(if truthy (slot t 16) then slot t 16 else Legacy) = ver"
    and "attest_types ver = Inr ty"
    and "js_BigInt (slot t 1) = Inr c"
    and "js_BigInt (slot t 10) = Inr tm"
    and "js_BigInt (slot t 11) = Inr ex"
  shows "uncompactOffchainAttestationPackage t =
     Inr \<lparr> pkg_sig =
             \<lparr> att_version = ver,
               att_domain =
                 \<lparr> dom_name = ''EAS Attestation'', dom_version = slot t 0,
                   dom_chainId = c, dom_verifyingContract = slot t 2 \<rparr>,
               att_primaryType = (if ver = Legacy then ''Attestation'' else ''Attest''),
               att_types = ty,
               att_signature = Some \<lparr> sig_r = slot t 3, sig_s = slot t 4, sig_v = slot t 5 \<rparr>,
               att_uid = slot t 7,
               att_message =
                 \<lparr> msg_version = ver,
                   msg_schema = slot t 8,
                   msg_recipient = (if slot t 9 = String ''0'' then String ZeroAddress else slot t 9),
                   msg_time = tm,
                   msg_expirationTime = ex,
                   msg_revocable = slot t 13,
                   msg_refUID = (if slot t 12 = String ''0'' then String ZeroHash else slot t 12),
                   msg_data = slot t 14,
                   msg_salt = slot t 17 \<rparr>,
               att_r = None, att_s = None, att_v = None \<rparr>,
           pkg_signer = slot t 6 \<rparr>"
  unfolding assms(1)[symmetric]
  by (rule uncompact_accepts) (use assms in simp_all)

lemma pipeline_signed_package:
  assumes c: "lossless c"
    and sp: "signed_package pkg"
    and wt: "well_typed pkg"
    and tm: "safe_integer (msg_time (att_message (pkg_sig pkg)))"
    and ex: "safe_integer (msg_expirationTime (att_message (pkg_sig pkg)))"
  shows "pipeline c pkg =
     Inr (with_message_salt
            (if msg_salt (att_message (pkg_sig pkg)) = Undefined then Null
             else msg_salt (att_message (pkg_sig pkg)))
            (with_message_version (att_version (pkg_sig pkg)) pkg))"
proof -
  obtain sg sr where pkg: "pkg = \<lparr> pkg_sig = sg, pkg_signer = sr \<rparr>" by (cases pkg)
  obtain ver d pt ty sgn uid m r s v where
    sg: "sg = \<lparr> att_version = ver, att_domain = d, att_primaryType = pt, att_types = ty,
                att_signature = sgn, att_uid = uid, att_message = m,
                att_r = r, att_s = s, att_v = v \<rparr>"
    by (cases sg)
  obtain dn dv dc dvc where
    d: "d = \<lparr> dom_name = dn, dom_version = dv, dom_chainId = dc, dom_verifyingContract = dvc \<rparr>"
    by (cases d)
  obtain mv ms mr mt me mrev mref md msl where
    m: "m = \<lparr> msg_version = mv, msg_schema = ms, msg_recipient = mr, msg_time = mt,
              msg_expirationTime = me, msg_revocable = mrev, msg_refUID = mref,
              msg_data = md, msg_salt = msl \<rparr>"
    by (cases m)
  from sp pkg sg obtain g where g: "sgn = Some g"
    by (auto simp: signed_package_def Let_def)
  obtain gr gs gv where gg: "g = \<lparr> sig_r = gr, sig_s = gs, sig_v = gv \<rparr>" by (cases g)
  have sel: "pkg_sig pkg = sg" "att_message sg = m" "att_version sg = ver" "att_domain sg = d"
    "dom_name d = dn" "att_primaryType sg = pt" "att_types sg = ty" "att_signature sg = sgn"
    "att_r sg = r" "att_s sg = s" "att_v sg = v" "msg_recipient m = mr" "msg_refUID m = mref"
    "msg_version m = mv" "pkg_signer pkg = sr" "dom_version d = dv" "dom_verifyingContract d = dvc"
    "att_uid sg = uid" "msg_schema m = ms" "msg_revocable m = mrev" "msg_data m = md"
    "msg_salt m = msl" "sig_r g = gr" "sig_s g = gs" "sig_v g = gv"
    by (simp_all add: pkg sg d m gg)
  note sp[unfolded signed_package_def Let_def sel]
  then have facts:
    "ver = (if truthy mv then mv else Legacy)" "dn = ''EAS Attestation''"
    "pt = (if ver = Legacy then ''Attestation'' else ''Attest'')"
    "attest_types ver = Inr ty" "r = None" "s = None" "v = None"
    "mr \<noteq> String ''0''" "mref \<noteq> String ''0''"
    by blast+
  note wt[unfolded well_typed_def Let_def sel g option.case]
  then have types:
    "is_String dv" "is_String dvc" "is_String gr" "is_String gs" "is_Number gv"
    "is_String sr" "is_String uid" "is_String ms" "is_String mr" "is_String mref"
    "is_Boolean mrev" "is_String md" "mv = Undefined \<or> is_Number mv"
    "msl = Undefined \<or> is_String msl"
    by blast+
  have nf: "\<not> isSignedOffchainAttestationV1 (pkg_sig pkg)"
    by (simp add: isSignedOffchainAttestationV1_def pkg sg facts)
  have cp: "compactOffchainAttestationPackage pkg =
      Inr [dv, BigInt dc, dvc, gr, gs, gv, sr, uid, ms,
           (if mr = String ZeroAddress then String ''0'' else mr),
           Number (Finite mt), Number (Finite me),
           (if mref = String ZeroHash then String ''0'' else mref),
           mrev, md, Number (Finite 0), mv, msl]"
    using compact_nested[OF nf, of g] tm ex
    by (simp add: pkg sg d m g gg Number_of_bigint_safe)
  have mv': "(if truthy (json_value (wire mv)) then json_value (wire mv) else Legacy) = ver"
  proof (cases "truthy mv")
    case True
    with types(13) have "is_Number mv" by auto
    with True facts(1) show ?thesis by simp
  next
    case False
    with types(13) have "\<not> truthy (json_value (wire mv))" by (intro reread_falsy)
    with False facts(1) show ?thesis by simp
  qed
  have s16: "slot [dv, String (show_int dc), dvc, gr, gs, gv, sr, uid, ms,
           (if mr = String ZeroAddress then String ''0'' else mr),
           Number (Finite mt), Number (Finite me),
           (if mref = String ZeroHash then String ''0'' else mref),
           mrev, md, Number (Finite 0), json_value (wire mv),
           (if msl = Undefined then Null else msl)] 16 = json_value (wire mv)"
    by simp
  have msl': "json_value (wire msl) = (if msl = Undefined then Null else msl)"
    using types(14) by auto
  have mr': "json_value (wire (if mr = String ZeroAddress then String ''0'' else mr)) =
      (if mr = String ZeroAddress then String ''0'' else mr)"
    using types(9) by simp
  have mref': "json_value (wire (if mref = String ZeroHash then String ''0'' else mref)) =
      (if mref = String ZeroHash then String ''0'' else mref)"
    using types(10) by simp
  have t': "map (\<lambda>x. json_value (wire x))
       [dv, BigInt dc, dvc, gr, gs, gv, sr, uid, ms,
           (if mr = String ZeroAddress then String ''0'' else mr),
           Number (Finite mt), Number (Finite me),
           (if mref = String ZeroHash then String ''0'' else mref),
           mrev, md, Number (Finite 0), mv, msl] =
       [dv, String (show_int dc), dvc, gr, gs, gv, sr, uid, ms,
           (if mr = String ZeroAddress then String ''0'' else mr),
           Number (Finite mt), Number (Finite me),
           (if mref = String ZeroHash then String ''0'' else mref),
           mrev, md, Number (Finite 0), json_value (wire mv), (if msl = Undefined then Null else msl)]"
    using types mr' mref' msl' by simp
  show ?thesis
    unfolding pipeline_eq[OF c cp] t'
    by (subst uncompact_resolved[where ver = ver and ty = ty and c = dc and tm = mt and ex = me])
       (simp_all only: s16 mv', simp_all add: facts(2-9) with_message_version_def
          with_message_salt_def pkg sg d m g gg StringToBigInt_show_int)
qed

lemma slot_map: "i < length t \<Longrightarrow> slot (map f t) i = f (slot t i)"
  by (simp add: slot_def)

lemma slot_of_Inr: "i < length xs \<Longrightarrow> slot_of (Inr xs) i = Some (xs ! i)"
  by (simp add: slot_of_def)

lemma slot_nth: "i < length t \<Longrightarrow> t ! i = slot t i"
  by (simp add: slot_def)

lemma compact_succeeds:
  assumes "isSignedOffchainAttestationV1 (pkg_sig pkg) \<or> att_signature (pkg_sig pkg) \<noteq> None"
  shows "\<exists>t. compactOffchainAttestationPackage pkg = Inr t"
proof (cases "isSignedOffchainAttestationV1 (pkg_sig pkg)")
  case True
  then show ?thesis by (simp add: compact_flat)
next
  case False
  with assms obtain g where "att_signature (pkg_sig pkg) = Some g" by auto
  with False show ?thesis by (simp add: compact_nested)
qed

lemma compact_slots:
  assumes "compactOffchainAttestationPackage pkg = Inr t"
  shows "length t = 18"
    and "slot t 1 = BigInt (dom_chainId (att_domain (pkg_sig pkg)))"
    and "slot t 10 = Number (Number_of_bigint (msg_time (att_message (pkg_sig pkg))))"
    and "slot t 11 = Number (Number_of_bigint (msg_expirationTime (att_message (pkg_sig pkg))))"
    and "slot t 15 = Number (Finite 0)"
    and "slot t 16 = msg_version (att_message (pkg_sig pkg))"
    and "slot t 17 = msg_salt (att_message (pkg_sig pkg))"
proof -
  have "length t = 18 \<and>
    slot t 1 = BigInt (dom_chainId (att_domain (pkg_sig pkg))) \<and>
    slot t 10 = Number (Number_of_bigint (msg_time (att_message (pkg_sig pkg)))) \<and>
    slot t 11 = Number (Number_of_bigint (msg_expirationTime (att_message (pkg_sig pkg)))) \<and>
    slot t 15 = Number (Finite 0) \<and>
    slot t 16 = msg_version (att_message (pkg_sig pkg)) \<and>
    slot t 17 = msg_salt (att_message (pkg_sig pkg))"
  proof (cases "isSignedOffchainAttestationV1 (pkg_sig pkg)")
    case True
    from assms[unfolded compact_flat[OF True]] show ?thesis by auto
  next
    case False
    with assms obtain g where g: "att_signature (pkg_sig pkg) = Some g"
      by (cases "att_signature (pkg_sig pkg)")
         (auto simp: compactOffchainAttestationPackage_def Let_def)
    from assms[unfolded compact_nested[OF False g]] show ?thesis by auto
  qed
  then show "length t = 18"
    and "slot t 1 = BigInt (dom_chainId (att_domain (pkg_sig pkg)))"
    and "slot t 10 = Number (Number_of_bigint (msg_time (att_message (pkg_sig pkg))))"
    and "slot t 11 = Number (Number_of_bigint (msg_expirationTime (att_message (pkg_sig pkg))))"
    and "slot t 15 = Number (Finite 0)"
    and "slot t 16 = msg_version (att_message (pkg_sig pkg))"
    and "slot t 17 = msg_salt (att_message (pkg_sig pkg))"
    by blast+
qed

lemma wire_Number_of_bigint:
  "wire (Number x) = (case x of Finite k \<Rightarrow> JNumber k | _ \<Rightarrow> JNull)"
  by (cases x) simp_all

subsection \<open>The samples\<close>

lemmas sample_defs =
  legacy_sample_def v1_sample_def v2_sample_def legacy_message_def
  sample_domain_def sample_signature_def

lemmas tag_defs = Legacy_def Version1_def Version2_def

lemma signed_package_samples:
  "signed_package legacy_sample" "signed_package v1_sample" "signed_package v2_sample"
  by (simp_all add: signed_package_def sample_defs tag_defs attest_types_def strict_eq_def Let_def)

lemma safe_samples: "safe_integer 1000" "safe_integer 0" "safe_integer 1"
  by (simp_all add: safe_integer_def)

lemma compact_legacy_sample:
  "compactOffchainAttestationPackage legacy_sample = Inr (legacy_tuple @ [Undefined, Undefined])"
  by (simp add: compactOffchainAttestationPackage_def isSignedOffchainAttestationV1_def Let_def
      sample_defs legacy_tuple_def ZeroAddress_def ZeroHash_def Number_of_bigint_safe safe_samples)

lemma attest_types_Legacy: "attest_types Legacy = Inr [(''Attest'', base_Attest)]"
  by (simp add: attest_types_def)

lemma uncompact_legacy_tuple:
  "uncompactOffchainAttestationPackage legacy_tuple = Inr (with_message_version Legacy legacy_sample)"
  by (subst uncompact_accepts[where ty = "[(''Attest'', base_Attest)]" and c = 1 and tm = 1000 and ex = 0])
     (simp_all add: legacy_tuple_def attest_types_Legacy with_message_version_def sample_defs
        ZeroAddress_def ZeroHash_def)

lemma digit_char_simps:
  "digit_char 0 = CHR ''0''" "digit_char (Suc 0) = CHR ''1''" "digit_char 2 = CHR ''2''"
  "digit_char 3 = CHR ''3''" "digit_char 4 = CHR ''4''" "digit_char 5 = CHR ''5''"
  "digit_char 6 = CHR ''6''" "digit_char 7 = CHR ''7''" "digit_char 8 = CHR ''8''"
  "digit_char 9 = CHR ''9''"
  by (simp_all add: digit_char_def char_of_eq_iff)

lemma tags_truthy [simp]: "\<not> truthy Legacy" "truthy Version1" "truthy Version2"
  by (simp_all add: tag_defs)

lemma tags_distinct [simp]: "Version1 \<noteq> Legacy" "Version2 \<noteq> Legacy" "Version2 \<noteq> Version1"
  "Legacy \<noteq> Version1" "Legacy \<noteq> Version2" "Version1 \<noteq> Version2"
  by (simp_all add: tag_defs)

lemma number_to_string_99: "number_to_string 99 = ''99''"
  by (simp add: number_to_string_def show_double_def show_nat.simps digit_char_simps)

lemma show_int_1: "show_int 1 = ''1''"
  by (simp add: show_int_def show_nat.simps digit_char_simps)

lemma attest_types_Version2:
  "attest_types Version2 =
     Inr [(''Attest'', (''version'', ''uint16'') # base_Attest @ [(''salt'', ''bytes32'')])]"
  by (simp add: attest_types_def)

lemma attest_types_Version1:
  "attest_types Version1 = Inr [(''Attest'', (''version'', ''uint16'') # base_Attest)]"
  by (simp add: attest_types_def)

lemma compact_v2_sample:
  "compactOffchainAttestationPackage v2_sample = Inr v2_tuple"
  by (simp add: compactOffchainAttestationPackage_def isSignedOffchainAttestationV1_def Let_def
      sample_defs legacy_tuple_def v2_tuple_def ZeroAddress_def ZeroHash_def
      Number_of_bigint_safe safe_samples)

lemma Number_far_future: "Number_of_bigint 9007199254740994 = Finite 9007199254740994"
  by (simp add: Number_of_bigint_def round_to_double_def bitlen.simps Let_def)

lemma well_typed_samples: "well_typed legacy_sample" "well_typed v1_sample" "well_typed v2_sample"
  by (simp_all add: well_typed_def sample_defs tag_defs Let_def is_String_def is_Boolean_def
      is_Number_def)

section \<open>The claims\<close>

subsection \<open>C1: compaction followed by decompaction\<close>

text \<open>
  The spec's Legacy scenario is a counterexample to exact reproduction: the message of that
  package has no version, and decompaction writes the Legacy tag into it.
\<close>

theorem roundtrip_counterexample:
  "signed_package legacy_sample \<and>
   safe_integer (msg_time (att_message (pkg_sig legacy_sample))) \<and>
   safe_integer (msg_expirationTime (att_message (pkg_sig legacy_sample))) \<and>
   msg_version (att_message (pkg_sig legacy_sample)) = Undefined \<and>
   roundtrip legacy_sample = Inr (with_message_version Legacy legacy_sample) \<and>
   roundtrip legacy_sample \<noteq> Inr legacy_sample"
proof -
  have t: "safe_integer (msg_time (att_message (pkg_sig legacy_sample)))"
    and e: "safe_integer (msg_expirationTime (att_message (pkg_sig legacy_sample)))"
    by (simp_all add: sample_defs safe_integer_def)
  have u: "msg_version (att_message (pkg_sig legacy_sample)) = Undefined"
    by (simp add: sample_defs)
  have "roundtrip legacy_sample =
      Inr (with_message_times (msg_time (att_message (pkg_sig legacy_sample)))
             (msg_expirationTime (att_message (pkg_sig legacy_sample)))
             (with_message_version (att_version (pkg_sig legacy_sample)) legacy_sample))"
    by (rule roundtrip_signed_package[OF signed_package_samples(1)
          Number_of_bigint_safe[OF t] Number_of_bigint_safe[OF e]])
  also have "\<dots> = Inr (with_message_version (att_version (pkg_sig legacy_sample)) legacy_sample)"
    using with_message_times_same[of "with_message_version (att_version (pkg_sig legacy_sample)) legacy_sample"]
    by (simp add: with_message_version_times)
  also have "att_version (pkg_sig legacy_sample) = Legacy"
    by (simp add: legacy_sample_def)
  finally have r: "roundtrip legacy_sample = Inr (with_message_version Legacy legacy_sample)" .
  have "with_message_version Legacy legacy_sample \<noteq> legacy_sample"
    by (simp add: with_message_version_def sample_defs tag_defs)
  with r have "roundtrip legacy_sample \<noteq> Inr legacy_sample" by simp
  with signed_package_samples(1) t e u r show ?thesis by blast
qed

text \<open>
  C1 (amended). For every Legacy, V1 or V2 signed package, with \<open>k\<close> and \<open>j\<close> the doubles that
  \<^verbatim>\<open>Number()\<close> makes of its \<^verbatim>\<open>time\<close> and \<^verbatim>\<open>expirationTime\<close> (they exist for every unsigned
  64-bit time, lemma \<open>uint64_finite\<close>), decompaction of the compacted package succeeds and
  gives the package with \<^verbatim>\<open>message.version\<close> set to the package's version tag and with the two
  times \<open>k\<close> and \<open>j\<close>. A time within the exact-integer-safe range comes back as it is; so a
  package with both times in that range comes back with nothing changed but
  \<^verbatim>\<open>message.version\<close>, and exactly when its message carries its version tag (every V1 and V2
  package, and a Legacy package with \<^verbatim>\<open>message.version\<close> equal to the Legacy tag).
\<close>

theorem roundtrip_amended:
  assumes "signed_package pkg"
    and "Number_of_bigint (msg_time (att_message (pkg_sig pkg))) = Finite k"
    and "Number_of_bigint (msg_expirationTime (att_message (pkg_sig pkg))) = Finite j"
  shows "roundtrip pkg =
           Inr (with_message_times k j
                  (with_message_version (att_version (pkg_sig pkg)) pkg)) \<and>
         (safe_integer (msg_time (att_message (pkg_sig pkg))) \<longrightarrow>
            k = msg_time (att_message (pkg_sig pkg))) \<and>
         (safe_integer (msg_expirationTime (att_message (pkg_sig pkg))) \<longrightarrow>
            j = msg_expirationTime (att_message (pkg_sig pkg))) \<and>
         (safe_integer (msg_time (att_message (pkg_sig pkg))) \<and>
          safe_integer (msg_expirationTime (att_message (pkg_sig pkg))) \<longrightarrow>
            roundtrip pkg = Inr (with_message_version (att_version (pkg_sig pkg)) pkg)) \<and>
         (safe_integer (msg_time (att_message (pkg_sig pkg))) \<and>
          safe_integer (msg_expirationTime (att_message (pkg_sig pkg))) \<and>
          msg_version (att_message (pkg_sig pkg)) = att_version (pkg_sig pkg) \<longrightarrow>
            roundtrip pkg = Inr pkg)"
proof -
  let ?P = "with_message_version (att_version (pkg_sig pkg)) pkg"
  have r: "roundtrip pkg = Inr (with_message_times k j ?P)"
    using assms by (rule roundtrip_signed_package)
  have k: "k = msg_time (att_message (pkg_sig pkg))"
    if "safe_integer (msg_time (att_message (pkg_sig pkg)))"
    using Number_of_bigint_safe[OF that] assms(2) by simp
  have j: "j = msg_expirationTime (att_message (pkg_sig pkg))"
    if "safe_integer (msg_expirationTime (att_message (pkg_sig pkg)))"
    using Number_of_bigint_safe[OF that] assms(3) by simp
  have s: "roundtrip pkg = Inr ?P"
    if "safe_integer (msg_time (att_message (pkg_sig pkg)))"
      "safe_integer (msg_expirationTime (att_message (pkg_sig pkg)))"
    using r k[OF that(1)] j[OF that(2)] with_message_times_same[of ?P]
    by (simp add: with_message_version_times)
  have v: "?P = pkg" if "msg_version (att_message (pkg_sig pkg)) = att_version (pkg_sig pkg)"
    unfolding that[symmetric] by (simp add: with_message_version_def)
  from r k j s v show ?thesis by auto
qed

theorem roundtrip_amended_witness:
  "signed_package v2_sample \<and>
   Number_of_bigint (msg_time (att_message (pkg_sig v2_sample))) = Finite 1000 \<and>
   Number_of_bigint (msg_expirationTime (att_message (pkg_sig v2_sample))) = Finite 0 \<and>
   safe_integer (msg_time (att_message (pkg_sig v2_sample))) \<and>
   safe_integer (msg_expirationTime (att_message (pkg_sig v2_sample))) \<and>
   msg_version (att_message (pkg_sig v2_sample)) = att_version (pkg_sig v2_sample) \<and>
   roundtrip v2_sample = Inr v2_sample \<and>
   signed_package lossy_sample \<and>
   msg_time (att_message (pkg_sig lossy_sample)) = 9007199254740993 \<and>
   Number_of_bigint (msg_time (att_message (pkg_sig lossy_sample))) = Finite 9007199254740992 \<and>
   Number_of_bigint (msg_expirationTime (att_message (pkg_sig lossy_sample))) = Finite 0 \<and>
   roundtrip lossy_sample = Inr (with_message_times 9007199254740992 0 lossy_sample)"
proof -
  have t: "safe_integer (msg_time (att_message (pkg_sig v2_sample)))"
    and e: "safe_integer (msg_expirationTime (att_message (pkg_sig v2_sample)))"
    and v: "msg_version (att_message (pkg_sig v2_sample)) = att_version (pkg_sig v2_sample)"
    by (simp_all add: sample_defs safe_integer_def)
  have n: "Number_of_bigint (msg_time (att_message (pkg_sig v2_sample))) = Finite 1000"
    "Number_of_bigint (msg_expirationTime (att_message (pkg_sig v2_sample))) = Finite 0"
    by (simp_all add: sample_defs Number_of_bigint_safe safe_samples)
  from roundtrip_amended[OF signed_package_samples(3) n] t e v
  have a: "roundtrip v2_sample = Inr v2_sample" by blast
  have sp: "signed_package lossy_sample"
    by (simp add: signed_package_def lossy_sample_def sample_defs tag_defs attest_types_def
        strict_eq_def Let_def)
  have m: "msg_time (att_message (pkg_sig lossy_sample)) = 9007199254740993"
    "msg_expirationTime (att_message (pkg_sig lossy_sample)) = 0"
    by (simp_all add: lossy_sample_def sample_defs)
  have l: "Number_of_bigint (msg_time (att_message (pkg_sig lossy_sample))) = Finite 9007199254740992"
    "Number_of_bigint (msg_expirationTime (att_message (pkg_sig lossy_sample))) = Finite 0"
    by (simp_all only: m lossy_beyond_safe_range Number_of_bigint_safe[OF safe_samples(2)])
  have w: "with_message_version (att_version (pkg_sig lossy_sample)) lossy_sample = lossy_sample"
    by (simp add: with_message_version_def lossy_sample_def sample_defs)
  from roundtrip_amended[OF sp l]
  have b: "roundtrip lossy_sample = Inr (with_message_times 9007199254740992 0 lossy_sample)"
    unfolding w by blast
  from signed_package_samples(3) n t e v a sp m(1) l b show ?thesis by blast
qed

subsection \<open>C2: the sentinel for the zero address and the zero hash\<close>

text \<open>
  C2. Compaction of a package (flat, or with a nested signature) yields a tuple whose slot 9 is
  the string \<^verbatim>\<open>"0"\<close> when the recipient is the zero address and whose slot 12 is \<^verbatim>\<open>"0"\<close> when
  the refUID is the zero hash; and whenever decompaction accepts a tuple, a slot 9 equal to
  \<^verbatim>\<open>"0"\<close> becomes exactly the zero address and a slot 12 equal to \<^verbatim>\<open>"0"\<close> exactly the zero hash.
\<close>

theorem sentinel_substitution:
  "(isSignedOffchainAttestationV1 (pkg_sig pkg) \<or> att_signature (pkg_sig pkg) \<noteq> None \<longrightarrow>
      (\<exists>t. compactOffchainAttestationPackage pkg = Inr t \<and>
           (msg_recipient (att_message (pkg_sig pkg)) = String ZeroAddress \<longrightarrow>
              slot t 9 = String ''0'') \<and>
           (msg_refUID (att_message (pkg_sig pkg)) = String ZeroHash \<longrightarrow>
              slot t 12 = String ''0''))) \<and>
   (uncompactOffchainAttestationPackage t' = Inr pkg' \<longrightarrow>
      (slot t' 9 = String ''0'' \<longrightarrow>
         msg_recipient (att_message (pkg_sig pkg')) = String ZeroAddress) \<and>
      (slot t' 12 = String ''0'' \<longrightarrow>
         msg_refUID (att_message (pkg_sig pkg')) = String ZeroHash))"
proof (intro conjI impI)
  assume a: "isSignedOffchainAttestationV1 (pkg_sig pkg) \<or> att_signature (pkg_sig pkg) \<noteq> None"
  show "\<exists>t. compactOffchainAttestationPackage pkg = Inr t \<and>
           (msg_recipient (att_message (pkg_sig pkg)) = String ZeroAddress \<longrightarrow>
              slot t 9 = String ''0'') \<and>
           (msg_refUID (att_message (pkg_sig pkg)) = String ZeroHash \<longrightarrow>
              slot t 12 = String ''0'')"
  proof (cases "isSignedOffchainAttestationV1 (pkg_sig pkg)")
    case True
    then show ?thesis by (simp add: compact_flat)
  next
    case False
    with a obtain g where "att_signature (pkg_sig pkg) = Some g" by auto
    with False show ?thesis by (simp add: compact_nested)
  qed
next
  assume "uncompactOffchainAttestationPackage t' = Inr pkg'" "slot t' 9 = String ''0''"
  then show "msg_recipient (att_message (pkg_sig pkg')) = String ZeroAddress"
    by (auto simp: uncompactOffchainAttestationPackage_def Let_def split: sum.splits)
next
  assume "uncompactOffchainAttestationPackage t' = Inr pkg'" "slot t' 12 = String ''0''"
  then show "msg_refUID (att_message (pkg_sig pkg')) = String ZeroHash"
    by (auto simp: uncompactOffchainAttestationPackage_def Let_def split: sum.splits)
qed

theorem sentinel_substitution_witness:
  "(isSignedOffchainAttestationV1 (pkg_sig legacy_sample) \<or>
      att_signature (pkg_sig legacy_sample) \<noteq> None) \<and>
   msg_recipient (att_message (pkg_sig legacy_sample)) = String ZeroAddress \<and>
   msg_refUID (att_message (pkg_sig legacy_sample)) = String ZeroHash \<and>
   compactOffchainAttestationPackage legacy_sample = Inr (legacy_tuple @ [Undefined, Undefined]) \<and>
   slot (legacy_tuple @ [Undefined, Undefined]) 9 = String ''0'' \<and>
   slot (legacy_tuple @ [Undefined, Undefined]) 12 = String ''0'' \<and>
   uncompactOffchainAttestationPackage legacy_tuple =
     Inr (with_message_version Legacy legacy_sample) \<and>
   slot legacy_tuple 9 = String ''0'' \<and> slot legacy_tuple 12 = String ''0'' \<and>
   msg_recipient (att_message (pkg_sig (with_message_version Legacy legacy_sample))) =
     String ZeroAddress \<and>
   msg_refUID (att_message (pkg_sig (with_message_version Legacy legacy_sample))) =
     String ZeroHash"
proof -
  have a: "isSignedOffchainAttestationV1 (pkg_sig legacy_sample) \<or>
      att_signature (pkg_sig legacy_sample) \<noteq> None"
    by (simp add: sample_defs)
  have r: "msg_recipient (att_message (pkg_sig legacy_sample)) = String ZeroAddress"
    and u: "msg_refUID (att_message (pkg_sig legacy_sample)) = String ZeroHash"
    by (simp_all add: sample_defs ZeroAddress_def ZeroHash_def)
  have s: "slot legacy_tuple 9 = String ''0''" "slot legacy_tuple 12 = String ''0''"
    by (simp_all add: legacy_tuple_def)
  have s': "slot (legacy_tuple @ [Undefined, Undefined]) 9 = String ''0''"
    "slot (legacy_tuple @ [Undefined, Undefined]) 12 = String ''0''"
    by (simp_all add: legacy_tuple_def)
  from sentinel_substitution[of legacy_sample legacy_tuple "with_message_version Legacy legacy_sample"]
    a r u s s' compact_legacy_sample uncompact_legacy_tuple
  show ?thesis by blast
qed

subsection \<open>C3: an unsupported version\<close>

text \<open>
  C3. When slot 16 is truthy and is none of the tags Legacy, V1, V2, decompaction fails with an
  \<^verbatim>\<open>Error\<close> whose message is \<^verbatim>\<open>Unsupported version: \<close> followed by the text of the offending
  value; the result is that error and nothing else (with slot 16 equal to 99 the message is
  \<^verbatim>\<open>Unsupported version: 99\<close>, see the witness).
\<close>

theorem unsupported_version:
  assumes "truthy (slot t 16)"
    and "slot t 16 \<noteq> Legacy" and "slot t 16 \<noteq> Version1" and "slot t 16 \<noteq> Version2"
  shows "uncompactOffchainAttestationPackage t =
           Inl (Error (''Unsupported version: '' @ to_string (slot t 16)))"
  using assms by (simp add: uncompactOffchainAttestationPackage_def attest_types_def Let_def)

theorem unsupported_version_witness:
  "truthy (slot (legacy_tuple @ [Number (Finite 99)]) 16) \<and>
   slot (legacy_tuple @ [Number (Finite 99)]) 16 \<noteq> Legacy \<and>
   slot (legacy_tuple @ [Number (Finite 99)]) 16 \<noteq> Version1 \<and>
   slot (legacy_tuple @ [Number (Finite 99)]) 16 \<noteq> Version2 \<and>
   uncompactOffchainAttestationPackage (legacy_tuple @ [Number (Finite 99)]) =
     Inl (Error ''Unsupported version: 99'')"
proof -
  have s: "slot (legacy_tuple @ [Number (Finite 99)]) 16 = Number (Finite 99)"
    by (simp add: legacy_tuple_def)
  have h: "truthy (slot (legacy_tuple @ [Number (Finite 99)]) 16)"
    "slot (legacy_tuple @ [Number (Finite 99)]) 16 \<noteq> Legacy"
    "slot (legacy_tuple @ [Number (Finite 99)]) 16 \<noteq> Version1"
    "slot (legacy_tuple @ [Number (Finite 99)]) 16 \<noteq> Version2"
    by (simp_all add: s tag_defs)
  from unsupported_version[OF h] h show ?thesis
    by (simp add: s number_to_string_99)
qed

subsection \<open>C4: a falsy or absent slot 16 is Legacy\<close>

text \<open>
  C4. When slot 16 is absent or falsy (and the three \<^verbatim>\<open>BigInt\<close> conversions of slots 1, 10 and
  11 succeed, so that decompaction returns), the returned package has the Legacy tag as its
  version, the primary type \<^verbatim>\<open>Attestation\<close>, and as \<^verbatim>\<open>Attest\<close> field list the seven base fields
  schema, recipient, time, expirationTime, revocable, refUID, data.
\<close>

theorem legacy_resolution:
  assumes "\<not> truthy (slot t 16)"
    and "js_BigInt (slot t 1) = Inr c"
    and "js_BigInt (slot t 10) = Inr tm"
    and "js_BigInt (slot t 11) = Inr ex"
  shows "\<exists>pkg. uncompactOffchainAttestationPackage t = Inr pkg \<and>
           att_version (pkg_sig pkg) = Legacy \<and>
           att_primaryType (pkg_sig pkg) = ''Attestation'' \<and>
           att_types (pkg_sig pkg) =
             [(''Attest'',
               [(''schema'', ''bytes32''), (''recipient'', ''address''), (''time'', ''uint64''),
                (''expirationTime'', ''uint64''), (''revocable'', ''bool''),
                (''refUID'', ''bytes32''), (''data'', ''bytes'')])]"
  using assms
  by (simp add: uncompact_accepts[where ty = "[(''Attest'', base_Attest)]"] attest_types_Legacy
      base_Attest_def)

theorem legacy_resolution_witness:
  "\<not> truthy (slot legacy_tuple 16) \<and>
   js_BigInt (slot legacy_tuple 1) = Inr 1 \<and>
   js_BigInt (slot legacy_tuple 10) = Inr 1000 \<and>
   js_BigInt (slot legacy_tuple 11) = Inr 0 \<and>
   (\<exists>pkg. uncompactOffchainAttestationPackage legacy_tuple = Inr pkg \<and>
           att_version (pkg_sig pkg) = Legacy \<and>
           att_primaryType (pkg_sig pkg) = ''Attestation'' \<and>
           att_types (pkg_sig pkg) =
             [(''Attest'',
               [(''schema'', ''bytes32''), (''recipient'', ''address''), (''time'', ''uint64''),
                (''expirationTime'', ''uint64''), (''revocable'', ''bool''),
                (''refUID'', ''bytes32''), (''data'', ''bytes'')])])"
proof -
  have h: "\<not> truthy (slot legacy_tuple 16)"
    "js_BigInt (slot legacy_tuple 1) = Inr 1"
    "js_BigInt (slot legacy_tuple 10) = Inr 1000"
    "js_BigInt (slot legacy_tuple 11) = Inr 0"
    by (simp_all add: legacy_tuple_def)
  from legacy_resolution[OF h] h show ?thesis by blast
qed

subsection \<open>C5: the V2 field list and the salt\<close>

text \<open>
  C5. When slot 16 is the V2 tag (and the three \<^verbatim>\<open>BigInt\<close> conversions succeed), the returned
  package has the nine-field \<^verbatim>\<open>Attest\<close> list (the leading version field, the seven base fields,
  the trailing salt field), the primary type \<^verbatim>\<open>Attest\<close>, and \<^verbatim>\<open>message.salt\<close> equal to slot 17
  as it is.
\<close>

theorem v2_reconstruction:
  assumes "slot t 16 = Version2"
    and "js_BigInt (slot t 1) = Inr c"
    and "js_BigInt (slot t 10) = Inr tm"
    and "js_BigInt (slot t 11) = Inr ex"
  shows "\<exists>pkg. uncompactOffchainAttestationPackage t = Inr pkg \<and>
           att_types (pkg_sig pkg) =
             [(''Attest'',
               [(''version'', ''uint16''),
                (''schema'', ''bytes32''), (''recipient'', ''address''), (''time'', ''uint64''),
                (''expirationTime'', ''uint64''), (''revocable'', ''bool''),
                (''refUID'', ''bytes32''), (''data'', ''bytes''),
                (''salt'', ''bytes32'')])] \<and>
           att_primaryType (pkg_sig pkg) = ''Attest'' \<and>
           msg_salt (att_message (pkg_sig pkg)) = slot t 17"
  using assms
  by (simp add: uncompact_accepts[where ty =
        "[(''Attest'', (''version'', ''uint16'') # base_Attest @ [(''salt'', ''bytes32'')])]"]
      attest_types_Version2 base_Attest_def)

theorem v2_reconstruction_witness:
  "slot v2_tuple 16 = Version2 \<and>
   js_BigInt (slot v2_tuple 1) = Inr 1 \<and>
   js_BigInt (slot v2_tuple 10) = Inr 1000 \<and>
   js_BigInt (slot v2_tuple 11) = Inr 0 \<and>
   slot v2_tuple 17 = String ''0xabcdabcdabcdabcdabcdabcdabcdabcdabcdabcdabcdabcdabcdabcdabcdabcd'' \<and>
   (\<exists>pkg. uncompactOffchainAttestationPackage v2_tuple = Inr pkg \<and>
           att_types (pkg_sig pkg) =
             [(''Attest'',
               [(''version'', ''uint16''),
                (''schema'', ''bytes32''), (''recipient'', ''address''), (''time'', ''uint64''),
                (''expirationTime'', ''uint64''), (''revocable'', ''bool''),
                (''refUID'', ''bytes32''), (''data'', ''bytes''),
                (''salt'', ''bytes32'')])] \<and>
           att_primaryType (pkg_sig pkg) = ''Attest'' \<and>
           msg_salt (att_message (pkg_sig pkg)) =
             String ''0xabcdabcdabcdabcdabcdabcdabcdabcdabcdabcdabcdabcdabcdabcdabcdabcd'')"
proof -
  have h: "slot v2_tuple 16 = Version2"
    "js_BigInt (slot v2_tuple 1) = Inr 1"
    "js_BigInt (slot v2_tuple 10) = Inr 1000"
    "js_BigInt (slot v2_tuple 11) = Inr 0"
    by (simp_all add: v2_tuple_def legacy_tuple_def)
  have s: "slot v2_tuple 17 =
      String ''0xabcdabcdabcdabcdabcdabcdabcdabcdabcdabcdabcdabcdabcdabcdabcdabcd''"
    by (simp add: v2_tuple_def legacy_tuple_def)
  from v2_reconstruction[OF h] h s show ?thesis by metis
qed

subsection \<open>C6: the legacy adapter\<close>

text \<open>
  A flat object whose message has no version is a counterexample to slot 16 being the V1 tag:
  the adapter writes the tag on the object, and the tuple takes the version of the message.
\<close>

theorem legacy_adapter_counterexample:
  "isSignedOffchainAttestationV1 (pkg_sig flat_sample) \<and>
   slot_of (compactOffchainAttestationPackage flat_sample) 16 = Some Undefined \<and>
   slot_of (compactOffchainAttestationPackage flat_sample) 16 \<noteq> Some Version1"
proof -
  have a: "isSignedOffchainAttestationV1 (pkg_sig flat_sample)"
    by (simp add: isSignedOffchainAttestationV1_def flat_sample_def)
  have "slot_of (compactOffchainAttestationPackage flat_sample) 16 = Some Undefined"
    by (simp add: compact_flat[OF a] slot_of_def) (simp add: flat_sample_def sample_defs)
  with a show ?thesis by (simp add: tag_defs)
qed

text \<open>
  C6 (amended). For every package whose signature-bearing object has the keys \<^verbatim>\<open>v\<close>, \<^verbatim>\<open>r\<close> and
  \<^verbatim>\<open>s\<close> at the top level (the objects \<^verbatim>\<open>isSignedOffchainAttestationV1\<close> accepts), compaction
  first normalises it: the normalised object is nested, with the version set to the V1 tag and
  the signature made of those \<^verbatim>\<open>v\<close>, \<^verbatim>\<open>r\<close>, \<^verbatim>\<open>s\<close>, every other field unchanged, and compacting
  the package is compacting the normalised one. The tuple has \<^verbatim>\<open>r\<close>, \<^verbatim>\<open>s\<close>, \<^verbatim>\<open>v\<close> in slots 3, 4,
  5, and its slot 16 is the version of the message: the V1 tag exactly when the message
  carries it.
\<close>

theorem legacy_adapter:
  assumes "isSignedOffchainAttestationV1 (pkg_sig pkg)"
  shows "\<exists>r s v t.
           att_r (pkg_sig pkg) = Some r \<and> att_s (pkg_sig pkg) = Some s \<and>
           att_v (pkg_sig pkg) = Some v \<and>
           att_version (convertV1AttestationToV2 (pkg_sig pkg)) = Version1 \<and>
           att_signature (convertV1AttestationToV2 (pkg_sig pkg)) =
             Some \<lparr> sig_r = r, sig_s = s, sig_v = v \<rparr> \<and>
           att_r (convertV1AttestationToV2 (pkg_sig pkg)) = None \<and>
           att_s (convertV1AttestationToV2 (pkg_sig pkg)) = None \<and>
           att_v (convertV1AttestationToV2 (pkg_sig pkg)) = None \<and>
           att_domain (convertV1AttestationToV2 (pkg_sig pkg)) = att_domain (pkg_sig pkg) \<and>
           att_primaryType (convertV1AttestationToV2 (pkg_sig pkg)) = att_primaryType (pkg_sig pkg) \<and>
           att_types (convertV1AttestationToV2 (pkg_sig pkg)) = att_types (pkg_sig pkg) \<and>
           att_uid (convertV1AttestationToV2 (pkg_sig pkg)) = att_uid (pkg_sig pkg) \<and>
           att_message (convertV1AttestationToV2 (pkg_sig pkg)) = att_message (pkg_sig pkg) \<and>
           compactOffchainAttestationPackage pkg =
             compactOffchainAttestationPackage
               (pkg \<lparr> pkg_sig := convertV1AttestationToV2 (pkg_sig pkg) \<rparr>) \<and>
           compactOffchainAttestationPackage pkg = Inr t \<and>
           slot t 3 = r \<and> slot t 4 = s \<and> slot t 5 = v \<and>
           slot t 16 = msg_version (att_message (pkg_sig pkg))"
proof -
  from assms obtain r s v where k:
    "att_r (pkg_sig pkg) = Some r" "att_s (pkg_sig pkg) = Some s" "att_v (pkg_sig pkg) = Some v"
    by (auto simp: isSignedOffchainAttestationV1_def)
  have n: "\<not> isSignedOffchainAttestationV1 (convertV1AttestationToV2 (pkg_sig pkg))"
    by (simp add: isSignedOffchainAttestationV1_def convertV1AttestationToV2_def)
  have e: "compactOffchainAttestationPackage pkg =
      compactOffchainAttestationPackage (pkg \<lparr> pkg_sig := convertV1AttestationToV2 (pkg_sig pkg) \<rparr>)"
    using assms n by (simp add: compactOffchainAttestationPackage_def Let_def)
  obtain t where t: "compactOffchainAttestationPackage pkg = Inr t"
    using compact_flat[OF assms] by blast
  from t[unfolded compact_flat[OF assms]] k
  have sl: "slot t 3 = r" "slot t 4 = s" "slot t 5 = v"
    "slot t 16 = msg_version (att_message (pkg_sig pkg))"
    by (auto simp: key_value_def)
  have c: "att_version (convertV1AttestationToV2 (pkg_sig pkg)) = Version1"
    "att_signature (convertV1AttestationToV2 (pkg_sig pkg)) = Some \<lparr> sig_r = r, sig_s = s, sig_v = v \<rparr>"
    "att_r (convertV1AttestationToV2 (pkg_sig pkg)) = None"
    "att_s (convertV1AttestationToV2 (pkg_sig pkg)) = None"
    "att_v (convertV1AttestationToV2 (pkg_sig pkg)) = None"
    "att_domain (convertV1AttestationToV2 (pkg_sig pkg)) = att_domain (pkg_sig pkg)"
    "att_primaryType (convertV1AttestationToV2 (pkg_sig pkg)) = att_primaryType (pkg_sig pkg)"
    "att_types (convertV1AttestationToV2 (pkg_sig pkg)) = att_types (pkg_sig pkg)"
    "att_uid (convertV1AttestationToV2 (pkg_sig pkg)) = att_uid (pkg_sig pkg)"
    "att_message (convertV1AttestationToV2 (pkg_sig pkg)) = att_message (pkg_sig pkg)"
    by (simp_all add: convertV1AttestationToV2_def key_value_def k)
  from k c e t sl show ?thesis by blast
qed

theorem legacy_adapter_witness:
  "isSignedOffchainAttestationV1 (pkg_sig flat_v1_sample) \<and>
   msg_version (att_message (pkg_sig flat_v1_sample)) = Version1 \<and>
   (\<exists>t. compactOffchainAttestationPackage flat_v1_sample = Inr t \<and> slot t 16 = Version1)"
proof -
  have a: "isSignedOffchainAttestationV1 (pkg_sig flat_v1_sample)"
    by (simp add: isSignedOffchainAttestationV1_def flat_v1_sample_def)
  have b: "msg_version (att_message (pkg_sig flat_v1_sample)) = Version1"
    by (simp add: flat_v1_sample_def sample_defs)
  from legacy_adapter[OF a] a b show ?thesis by metis
qed

subsection \<open>C7: the full pipeline\<close>

text \<open>
  A V1 package is a counterexample to the exact round trip: its message has no salt, JSON
  writes \<^verbatim>\<open>null\<close> for the undefined slot 17, and the decoded message has the salt \<^verbatim>\<open>null\<close>.
\<close>

theorem pipeline_counterexample:
  "lossless plain_codec \<and> signed_package v1_sample \<and> well_typed v1_sample \<and>
   safe_integer (msg_time (att_message (pkg_sig v1_sample))) \<and>
   safe_integer (msg_expirationTime (att_message (pkg_sig v1_sample))) \<and>
   msg_salt (att_message (pkg_sig v1_sample)) = Undefined \<and>
   pipeline plain_codec v1_sample = Inr (with_message_salt Null v1_sample) \<and>
   pipeline plain_codec v1_sample \<noteq> Inr v1_sample"
proof -
  have t: "safe_integer (msg_time (att_message (pkg_sig v1_sample)))"
    and e: "safe_integer (msg_expirationTime (att_message (pkg_sig v1_sample)))"
    by (simp_all add: sample_defs safe_integer_def)
  have u: "msg_salt (att_message (pkg_sig v1_sample)) = Undefined"
    by (simp add: sample_defs)
  have "with_message_version Version1 v1_sample = v1_sample"
    by (simp add: with_message_version_def sample_defs)
  then have r: "pipeline plain_codec v1_sample = Inr (with_message_salt Null v1_sample)"
    using pipeline_signed_package[OF plain_codec_lossless signed_package_samples(2)
        well_typed_samples(2) t e]
    by (simp add: sample_defs)
  have "with_message_salt Null v1_sample \<noteq> v1_sample"
    by (simp add: with_message_salt_def sample_defs)
  with r have "pipeline plain_codec v1_sample \<noteq> Inr v1_sample" by simp
  with plain_codec_lossless signed_package_samples(2) well_typed_samples(2) t e u r
  show ?thesis by blast
qed

text \<open>
  C7 (amended). For every lossless codec and every well-typed Legacy, V1 or V2 signed package
  whose two times are within the exact-integer-safe range, decoding the encoded package
  succeeds and gives the package with \<^verbatim>\<open>message.version\<close> set to the version tag and with a
  missing \<^verbatim>\<open>message.salt\<close> replaced by \<^verbatim>\<open>null\<close>. Hence a package whose message carries its
  version tag and a salt (a V2 package) is reproduced exactly.
\<close>

theorem pipeline_amended:
  assumes "lossless c"
    and "signed_package pkg"
    and "well_typed pkg"
    and "safe_integer (msg_time (att_message (pkg_sig pkg)))"
    and "safe_integer (msg_expirationTime (att_message (pkg_sig pkg)))"
  shows "pipeline c pkg =
           Inr (with_message_salt
                  (if msg_salt (att_message (pkg_sig pkg)) = Undefined then Null
                   else msg_salt (att_message (pkg_sig pkg)))
                  (with_message_version (att_version (pkg_sig pkg)) pkg)) \<and>
         (msg_version (att_message (pkg_sig pkg)) = att_version (pkg_sig pkg) \<and>
          msg_salt (att_message (pkg_sig pkg)) \<noteq> Undefined \<longrightarrow>
            pipeline c pkg = Inr pkg)"
proof -
  have p: "pipeline c pkg =
           Inr (with_message_salt
                  (if msg_salt (att_message (pkg_sig pkg)) = Undefined then Null
                   else msg_salt (att_message (pkg_sig pkg)))
                  (with_message_version (att_version (pkg_sig pkg)) pkg))"
    using assms by (rule pipeline_signed_package)
  have "with_message_salt (msg_salt (att_message (pkg_sig pkg)))
          (with_message_version (msg_version (att_message (pkg_sig pkg))) pkg) = pkg"
    by (simp add: with_message_version_def with_message_salt_def)
  with p show ?thesis by auto
qed

theorem pipeline_amended_witness:
  "lossless plain_codec \<and> signed_package v2_sample \<and> well_typed v2_sample \<and>
   safe_integer (msg_time (att_message (pkg_sig v2_sample))) \<and>
   safe_integer (msg_expirationTime (att_message (pkg_sig v2_sample))) \<and>
   msg_version (att_message (pkg_sig v2_sample)) = att_version (pkg_sig v2_sample) \<and>
   msg_salt (att_message (pkg_sig v2_sample)) \<noteq> Undefined \<and>
   pipeline plain_codec v2_sample = Inr v2_sample"
proof -
  have t: "safe_integer (msg_time (att_message (pkg_sig v2_sample)))"
    and e: "safe_integer (msg_expirationTime (att_message (pkg_sig v2_sample)))"
    and v: "msg_version (att_message (pkg_sig v2_sample)) = att_version (pkg_sig v2_sample)"
    and s: "msg_salt (att_message (pkg_sig v2_sample)) \<noteq> Undefined"
    by (simp_all add: sample_defs safe_integer_def)
  from pipeline_amended[OF plain_codec_lossless signed_package_samples(3) well_typed_samples(3) t e]
    v s
  have "pipeline plain_codec v2_sample = Inr v2_sample" by blast
  with plain_codec_lossless signed_package_samples(3) well_typed_samples(3) t e v s
  show ?thesis by blast
qed

subsection \<open>C8: what is written as a decimal string\<close>

text \<open>
  The rule goes by type, not by magnitude: the chain id 1, a safe integer, is written as the
  string \<^verbatim>\<open>"1"\<close>, and a time beyond the safe range is written as a JSON number.
\<close>

theorem wire_rule_counterexample:
  "safe_integer (dom_chainId (att_domain (pkg_sig v2_sample))) \<and>
   slot_of (wire_form v2_sample) 1 = Some (JString ''1'') \<and>
   \<not> safe_integer (msg_time (att_message (pkg_sig far_future_sample))) \<and>
   slot_of (wire_form far_future_sample) 10 = Some (JNumber 9007199254740994)"
proof -
  have a: "safe_integer (dom_chainId (att_domain (pkg_sig v2_sample)))"
    "\<not> safe_integer (msg_time (att_message (pkg_sig far_future_sample)))"
    by (simp_all add: sample_defs far_future_sample_def safe_integer_def)
  have b: "slot_of (wire_form v2_sample) 1 = Some (JString ''1'')"
    by (simp add: wire_form_eq[OF compact_v2_sample] slot_of_def v2_tuple_def legacy_tuple_def
        show_int_1)
  have "compactOffchainAttestationPackage far_future_sample =
      Inr (v2_tuple [10 := Number (Finite 9007199254740994)])"
    by (simp add: compactOffchainAttestationPackage_def isSignedOffchainAttestationV1_def Let_def
      sample_defs far_future_sample_def legacy_tuple_def v2_tuple_def ZeroAddress_def ZeroHash_def
      Number_of_bigint_safe safe_samples Number_far_future)
  then have c: "slot_of (wire_form far_future_sample) 10 = Some (JNumber 9007199254740994)"
    by (simp add: wire_form_eq slot_of_def v2_tuple_def legacy_tuple_def)
  from a b c show ?thesis by blast
qed

text \<open>
  C8 (amended). In the wire form of a compacted package every slot that holds a bigint is
  written as its decimal string and every other slot is serialised as it is. The chain id
  (slot 1, the one bigint of the tuple) is therefore a decimal string whatever its magnitude,
  and \<^verbatim>\<open>time\<close> and \<^verbatim>\<open>expirationTime\<close> (slots 10 and 11, numbers after \<^verbatim>\<open>Number()\<close>) are JSON
  numbers, or \<^verbatim>\<open>null\<close> when infinite, never strings.
\<close>

theorem wire_rule:
  assumes "compactOffchainAttestationPackage pkg = Inr t"
  shows "wire_form pkg = Inr (map wire t) \<and>
         (\<forall>i<length t.
            (\<exists>n. t ! i = BigInt n \<and> map wire t ! i = JString (show_int n)) \<or>
            ((\<forall>n. t ! i \<noteq> BigInt n) \<and> SerializeJSONProperty (t ! i) = Inr (map wire t ! i))) \<and>
         slot_of (wire_form pkg) 1 =
           Some (JString (show_int (dom_chainId (att_domain (pkg_sig pkg))))) \<and>
         slot_of (wire_form pkg) 10 =
           Some (case Number_of_bigint (msg_time (att_message (pkg_sig pkg))) of
                   Finite k \<Rightarrow> JNumber k | _ \<Rightarrow> JNull) \<and>
         slot_of (wire_form pkg) 11 =
           Some (case Number_of_bigint (msg_expirationTime (att_message (pkg_sig pkg))) of
                   Finite k \<Rightarrow> JNumber k | _ \<Rightarrow> JNull)"
proof -
  note s = compact_slots[OF assms]
  have w: "wire_form pkg = Inr (map wire t)" using assms by (rule wire_form_eq)
  have each: "\<forall>i<length t.
            (\<exists>n. t ! i = BigInt n \<and> map wire t ! i = JString (show_int n)) \<or>
            ((\<forall>n. t ! i \<noteq> BigInt n) \<and> SerializeJSONProperty (t ! i) = Inr (map wire t ! i))"
  proof (intro allI impI)
    fix i assume i: "i < length t"
    show "(\<exists>n. t ! i = BigInt n \<and> map wire t ! i = JString (show_int n)) \<or>
            ((\<forall>n. t ! i \<noteq> BigInt n) \<and> SerializeJSONProperty (t ! i) = Inr (map wire t ! i))"
    proof (cases "\<exists>n. t ! i = BigInt n")
      case True
      with i show ?thesis by auto
    next
      case False
      with i Serialize_plain[of "t ! i"] show ?thesis by simp
    qed
  qed
  have r: "slot_of (wire_form pkg) 1 = Some (wire (slot t 1))"
    "slot_of (wire_form pkg) 10 = Some (wire (slot t 10))"
    "slot_of (wire_form pkg) 11 = Some (wire (slot t 11))"
    using s(1) by (simp_all add: w slot_of_def slot_def)
  note r1 = r(1)[unfolded s(2) wire.simps]
    and r10 = r(2)[unfolded s(3) wire_Number_of_bigint]
    and r11 = r(3)[unfolded s(4) wire_Number_of_bigint]
  from w each r1 r10 r11 show ?thesis by blast
qed

theorem wire_rule_witness:
  "compactOffchainAttestationPackage v2_sample = Inr v2_tuple \<and>
   slot_of (wire_form v2_sample) 1 = Some (JString ''1'') \<and>
   slot_of (wire_form v2_sample) 10 = Some (JNumber 1000) \<and>
   slot_of (wire_form v2_sample) 11 = Some (JNumber 0)"
proof -
  have f: "dom_chainId (att_domain (pkg_sig v2_sample)) = 1"
    "Number_of_bigint (msg_time (att_message (pkg_sig v2_sample))) = Finite 1000"
    "Number_of_bigint (msg_expirationTime (att_message (pkg_sig v2_sample))) = Finite 0"
    by (simp_all add: sample_defs Number_of_bigint_safe safe_samples)
  note wire_rule[OF compact_v2_sample, unfolded f show_int_1 jsnum.case]
  with compact_v2_sample show ?thesis by blast
qed

subsection \<open>C9: the version of the message\<close>

text \<open>
  C9. In every package that decompaction returns, \<^verbatim>\<open>sig.message.version\<close> is the resolved version
  (slot 16 when truthy, the Legacy tag otherwise), it equals \<^verbatim>\<open>sig.version\<close>, and it is one of
  the three tags. The witness is the Legacy scenario: its message had no version, and the
  decompacted message has the Legacy tag.
\<close>

theorem version_invariant:
  assumes "uncompactOffchainAttestationPackage t = Inr pkg"
  shows "msg_version (att_message (pkg_sig pkg)) = (if truthy (slot t 16) then slot t 16 else Legacy) \<and>
         att_version (pkg_sig pkg) = msg_version (att_message (pkg_sig pkg)) \<and>
         (att_version (pkg_sig pkg) = Legacy \<or> att_version (pkg_sig pkg) = Version1 \<or>
          att_version (pkg_sig pkg) = Version2)"
  using assms
  by (auto simp: uncompactOffchainAttestationPackage_def attest_types_def Let_def
      split: sum.splits if_splits)

theorem version_invariant_witness:
  "uncompactOffchainAttestationPackage legacy_tuple =
     Inr (with_message_version Legacy legacy_sample) \<and>
   msg_version (att_message (pkg_sig legacy_sample)) = Undefined \<and>
   msg_version (att_message (pkg_sig (with_message_version Legacy legacy_sample))) = Legacy \<and>
   att_version (pkg_sig (with_message_version Legacy legacy_sample)) = Legacy"
proof -
  have u: "msg_version (att_message (pkg_sig legacy_sample)) = Undefined"
    by (simp add: sample_defs)
  have s: "\<not> truthy (slot legacy_tuple 16)"
    by (simp add: legacy_tuple_def)
  from version_invariant[OF uncompact_legacy_tuple] s u uncompact_legacy_tuple
  show ?thesis by simp
qed

subsection \<open>C10: the trailing slots of a package without version and salt\<close>

text \<open>
  C10. For every package (flat or with a nested signature, its two times finite as numbers)
  whose message has neither version nor salt, slots 16 and 17 of the tuple are
  \<^verbatim>\<open>undefined\<close> and the wire form has \<^verbatim>\<open>null\<close> in slots 16 and 17;
  \<^verbatim>\<open>null\<close> is falsy, and with a lossless codec the decoded package has the Legacy tag as its
  version and as the version of its message, and \<^verbatim>\<open>null\<close> as \<^verbatim>\<open>message.salt\<close>.
\<close>

theorem trailing_nulls:
  assumes c: "lossless c"
    and v: "msg_version (att_message (pkg_sig pkg)) = Undefined"
    and s: "msg_salt (att_message (pkg_sig pkg)) = Undefined"
    and g: "isSignedOffchainAttestationV1 (pkg_sig pkg) \<or> att_signature (pkg_sig pkg) \<noteq> None"
    and tm: "finite_number (Number_of_bigint (msg_time (att_message (pkg_sig pkg))))"
    and ex: "finite_number (Number_of_bigint (msg_expirationTime (att_message (pkg_sig pkg))))"
  shows "slot_of (compactOffchainAttestationPackage pkg) 16 = Some Undefined \<and>
         slot_of (compactOffchainAttestationPackage pkg) 17 = Some Undefined \<and>
         slot_of (wire_form pkg) 16 = Some JNull \<and>
         slot_of (wire_form pkg) 17 = Some JNull \<and>
         \<not> truthy (json_value JNull) \<and>
         (\<exists>pkg'. pipeline c pkg = Inr pkg' \<and>
            att_version (pkg_sig pkg') = Legacy \<and>
            msg_version (att_message (pkg_sig pkg')) = Legacy \<and>
            msg_salt (att_message (pkg_sig pkg')) = Null)"
proof -
  from compact_succeeds[OF g] obtain t where t: "compactOffchainAttestationPackage pkg = Inr t"
    by blast
  note sl = compact_slots[OF t]
  from tm obtain k where k: "Number_of_bigint (msg_time (att_message (pkg_sig pkg))) = Finite k"
    by (auto simp: finite_number_def split: jsnum.splits)
  from ex obtain j where j: "Number_of_bigint (msg_expirationTime (att_message (pkg_sig pkg))) = Finite j"
    by (auto simp: finite_number_def split: jsnum.splits)
  let ?f = "\<lambda>x. json_value (wire x)"
  have w: "slot_of (wire_form pkg) 16 = Some (wire (slot t 16))"
    "slot_of (wire_form pkg) 17 = Some (wire (slot t 17))"
    using sl(1) by (simp_all add: wire_form_eq[OF t] slot_of_def slot_def)
  have m: "slot (map ?f t) 1 = ?f (slot t 1)" "slot (map ?f t) 10 = ?f (slot t 10)"
    "slot (map ?f t) 11 = ?f (slot t 11)" "slot (map ?f t) 16 = ?f (slot t 16)"
    "slot (map ?f t) 17 = ?f (slot t 17)"
    using sl(1) by (simp_all add: slot_map)
  have p: "(if truthy (slot (map ?f t) 16) then slot (map ?f t) 16 else Legacy) = Legacy"
    "attest_types Legacy = Inr [(''Attest'', base_Attest)]"
    "js_BigInt (slot (map ?f t) 1) = Inr (dom_chainId (att_domain (pkg_sig pkg)))"
    "js_BigInt (slot (map ?f t) 10) = Inr k"
    "js_BigInt (slot (map ?f t) 11) = Inr j"
    by (simp_all only: m sl v s k j, simp_all add: attest_types_Legacy StringToBigInt_show_int)
  note u = uncompact_resolved[OF p]
  have n: "wire (slot t 16) = JNull" "wire (slot t 17) = JNull" "slot (map ?f t) 17 = Null"
    by (simp_all only: m sl v s, simp_all)
  have o: "slot_of (compactOffchainAttestationPackage pkg) 16 = Some Undefined"
    "slot_of (compactOffchainAttestationPackage pkg) 17 = Some Undefined"
    using sl(1) sl(6)[unfolded v] sl(7)[unfolded s] by (simp_all add: t slot_of_def slot_def)
  show ?thesis
    unfolding pipeline_eq[OF c t] u w n o
    by simp
qed

theorem trailing_nulls_witness:
  "lossless plain_codec \<and>
   msg_version (att_message (pkg_sig legacy_sample)) = Undefined \<and>
   msg_salt (att_message (pkg_sig legacy_sample)) = Undefined \<and>
   slot_of (wire_form legacy_sample) 16 = Some JNull \<and>
   slot_of (wire_form legacy_sample) 17 = Some JNull \<and>
   (\<exists>pkg'. pipeline plain_codec legacy_sample = Inr pkg' \<and>
      att_version (pkg_sig pkg') = Legacy \<and>
      msg_version (att_message (pkg_sig pkg')) = Legacy \<and>
      msg_salt (att_message (pkg_sig pkg')) = Null)"
proof -
  have v: "msg_version (att_message (pkg_sig legacy_sample)) = Undefined"
    and s: "msg_salt (att_message (pkg_sig legacy_sample)) = Undefined"
    and g: "isSignedOffchainAttestationV1 (pkg_sig legacy_sample) \<or>
      att_signature (pkg_sig legacy_sample) \<noteq> None"
    and tm: "finite_number (Number_of_bigint (msg_time (att_message (pkg_sig legacy_sample))))"
    and ex: "finite_number (Number_of_bigint (msg_expirationTime (att_message (pkg_sig legacy_sample))))"
    by (simp_all add: sample_defs Number_of_bigint_safe safe_samples finite_number_def)
  from trailing_nulls[OF plain_codec_lossless v s g tm ex] plain_codec_lossless v s
  show ?thesis by blast
qed

end
